theory Spec2Isabelle
  imports Main
begin

section \<open>The collector of plaso/lib/collector.py\<close>

text \<open>
  The collectors fill a processing queue with path specifications of the files they
  discover. Everything a collector does to its collaborators (the queue, the filesystem
  cache, the VSS library, the logging module) is recorded as an event, in program order;
  what the collaborators answer comes from an environment of functions over a world
  state \<open>'w\<close>, which is threaded through every call so that the same call may answer
  differently the second time (a directory that cannot be opened at first).
\<close>

subsection \<open>Exceptions, log records, path specifications, events\<close>

text \<open>
  The exceptions that leave a collector method. \<open>AttributeError\<close>, \<open>IOError\<close> and
  \<open>UnableToOpenFilesystem\<close> are caught where they arise and are values of the
  environment's answers below.
\<close>

datatype exn = NameError string | UnboundLocalError string

datatype log_level = DEBUG | INFO | WARNING | ERROR

text \<open>\<open>event.EventPathSpec\<close>, with the fields the collectors set; an unset field is \<open>None\<close>.\<close>

record EventPathSpec =
  pathspec_type :: string
  vss_store_number :: "int option"
  container_path :: "string option"
  image_offset :: "int option"
  image_inode :: "int option"
  file_path :: "string option"

text \<open>
  \<open>Queue p\<close> is \<open>self._queue.Queue(p.ToProtoString())\<close>, \<open>QueueClose\<close> is
  \<open>self._queue.Close()\<close>, \<open>FsOpen path offset store_nr\<close> is \<open>self._fscache.Open\<close>,
  \<open>VssStoreCount image offset\<close> is \<open>vss.GetVssStoreCount\<close>, \<open>TSKFileCollector\<close> and
  \<open>VSSFileCollector\<close> are the constructors of \<open>plaso.lib.preprocess\<close>, and
  \<open>Log level msg args\<close> is a call of the logging module with its format string and
  arguments.
\<close>

datatype event =
    Queue EventPathSpec
  | QueueClose
  | FsOpen string int int
  | VssStoreCount string int
  | TSKFileCollector string int
  | VSSFileCollector string int int
  | Log log_level string "string list"

text \<open>The descriptors put on the queue, and the number of end-of-stream signals.\<close>

fun queued :: "event list \<Rightarrow> EventPathSpec list" where
  "queued [] = []"
| "queued (Queue p # es) = p # queued es"
| "queued (e # es) = queued es"

definition closes :: "event list \<Rightarrow> nat" where
  "closes es = length (filter (\<lambda>e. e = QueueClose) es)"

text \<open>The store numbers of the snapshot stores opened (\<open>store_nr >= 0\<close>), in order.\<close>

fun opened_stores :: "event list \<Rightarrow> int list" where
  "opened_stores [] = []"
| "opened_stores (FsOpen p off nr # es) =
     (if nr \<ge> 0 then nr # opened_stores es else opened_stores es)"
| "opened_stores (e # es) = opened_stores es"

subsection \<open>Directory entries as pytsk3 hands them out\<close>

text \<open>
  Reading an attribute of a pytsk3 object either yields a value or raises
  \<open>AttributeError\<close> (with its message), which \<open>ParseImageDir\<close> catches.
\<close>

datatype 'a attr = AttributeError string | Attr 'a

datatype TSK_FS_NAME_FLAG = TSK_FS_NAME_FLAG_ALLOC | TSK_FS_NAME_FLAG_UNALLOC

datatype TSK_FS_META_TYPE =
  TSK_FS_META_TYPE_REG | TSK_FS_META_TYPE_DIR | TSK_FS_META_TYPE_LNK | TSK_FS_META_TYPE_UNDEF

record TSK_FS_NAME =
  name_flags :: "TSK_FS_NAME_FLAG attr"
  name_name :: "string attr"

text \<open>A timestamp field that the object does not have is \<open>None\<close> (\<open>getattr\<close> defaults it).\<close>

record TSK_FS_META =
  meta_addr :: "int attr"
  meta_type :: "TSK_FS_META_TYPE attr"
  atime :: "int option"
  atime_nano :: "int option"
  crtime :: "int option"
  crtime_nano :: "int option"
  mtime :: "int option"
  mtime_nano :: "int option"
  ctime :: "int option"
  ctime_nano :: "int option"

text \<open>\<open>f.info\<close>: \<open>f.info.name\<close> and \<open>f.info.meta\<close>, each possibly \<open>None\<close> (falsy).\<close>

record TSK_FS_FILE =
  info_name :: "TSK_FS_NAME option attr"
  info_meta :: "TSK_FS_META option attr"

text \<open>
  The handle \<open>self._fscache.Open\<close> returns: \<open>fs.path\<close>, \<open>fs.offset\<close>, \<open>fs.store_nr\<close> and
  \<open>fs.fs.info.root_inum\<close>.
\<close>

record CacheFileSystem =
  fs_path :: string
  fs_offset :: int
  fs_store_nr :: int
  root_inum :: int

subsection \<open>The configuration, the state and the environment\<close>

text \<open>The attributes \<open>SimpleImageCollector.__init__\<close> sets from its arguments.\<close>

record collector =
  self_image :: string
  self_offset :: int
  self_offset_bytes :: int
  self_vss :: bool
  self_vss_stores :: "int list option"
  self_file_filter :: string

text \<open>\<open>self._hashlist\<close> (a dict from inode address to a list of hash values) and the world.\<close>

record 'w state =
  hashlist :: "int \<Rightarrow> string list option"
  world :: 'w

text \<open>
  The collaborators, none of them in this file of the repository:
  \<^item> \<open>vol_open path offset store_nr\<close> answers \<open>self._fscache.Open\<close>: \<open>Inl msg\<close> is
    \<open>errors.UnableToOpenFilesystem\<close> with its message, \<open>Inr root\<close> the root inode
    of the opened volume;
  \<^item> \<open>open_dir fs inode\<close> answers \<open>fs.fs.open_dir(inode=...)\<close>: \<open>None\<close> is \<open>IOError\<close>,
    otherwise the entries of the directory;
  \<^item> \<open>store_count image offset\<close> answers \<open>vss.GetVssStoreCount\<close>;
  \<^item> \<open>md5_hexdigest\<close> is \<open>hashlib.md5(...).hexdigest()\<close> of the bytes fed to it;
  \<^item> \<open>GetUnicodeString\<close> is \<open>utils.GetUnicodeString\<close>;
  \<^item> \<open>GetPathSpecs store_nr image offset file_filter\<close> answers
    \<open>collector_filter.CollectionFilter(c, file_filter).GetPathSpecs()\<close>, where \<open>c\<close> is
    the \<open>TSKFileCollector\<close> (\<open>store_nr = None\<close>) or the \<open>VSSFileCollector\<close> of a store.
\<close>

record 'w env =
  vol_open :: "string \<Rightarrow> int \<Rightarrow> int \<Rightarrow> 'w \<Rightarrow> (string + int) \<times> 'w"
  open_dir :: "CacheFileSystem \<Rightarrow> int \<Rightarrow> 'w \<Rightarrow> TSK_FS_FILE list option \<times> 'w"
  store_count :: "string \<Rightarrow> int \<Rightarrow> 'w \<Rightarrow> int \<times> 'w"
  md5_hexdigest :: "string \<Rightarrow> string"
  GetUnicodeString :: "string \<Rightarrow> string"
  GetPathSpecs :: "int option \<Rightarrow> string \<Rightarrow> int \<Rightarrow> string \<Rightarrow> 'w \<Rightarrow> EventPathSpec list \<times> 'w"

text \<open>
  Modelled from the spec: \<open>pfile.FilesystemCache.Open\<close> is not among the sources. The
  spec's handle cache exposes \<open>open(path, offset, storeNumber)\<close>, whose handle carries the
  store number, the offset, the container path and a root-entry reference, or fails with
  a filesystem-open error; the main volume is opened without a store number, for which
  \<open>ParseImageDir\<close>'s test \<open>fs.store_nr >= 0\<close> needs a negative one.
\<close>

definition fscache_Open ::
  "'w env \<Rightarrow> string \<Rightarrow> int \<Rightarrow> int \<Rightarrow> 'w \<Rightarrow> (string + CacheFileSystem) \<times> 'w" where
  "fscache_Open env path offset store_nr w =
     (case vol_open env path offset store_nr w of
        (Inl msg, w') \<Rightarrow> (Inl msg, w')
      | (Inr root, w') \<Rightarrow>
          (Inr \<lparr>fs_path = path, fs_offset = offset, fs_store_nr = store_nr, root_inum = root\<rparr>,
           w'))"

definition no_store :: int where
  "no_store = - 1"

subsection \<open>Strings: decimal formatting and \<open>os.path.join\<close>\<close>

fun dec_nat :: "nat \<Rightarrow> string" where
  "dec_nat n =
     (if n < 10 then [''0123456789'' ! n]
      else dec_nat (n div 10) @ [''0123456789'' ! (n mod 10)])"

declare dec_nat.simps [simp del]

text \<open>\<open>'{0}'.format(i)\<close> and \<open>'%d' % i\<close> of an integer.\<close>

definition str_int :: "int \<Rightarrow> string" where
  "str_int i = (if i < 0 then CHR ''-'' # dec_nat (nat (- i)) else dec_nat (nat i))"

definition os_path_sep :: string where
  "os_path_sep = ''/''"

text \<open>\<open>posixpath.join(a, b)\<close>.\<close>

definition os_path_join :: "string \<Rightarrow> string \<Rightarrow> string" where
  "os_path_join a b =
     (if b \<noteq> [] \<and> hd b = CHR ''/'' then b
      else if a = [] \<or> last a = CHR ''/'' then a @ b
      else a @ ''/'' @ b)"

subsection \<open>\<open>SimpleImageCollector.CalculateNTFSTimeHash\<close>\<close>

definition getattr :: "'a option \<Rightarrow> 'a \<Rightarrow> 'a" where
  "getattr field dflt = (case field of None \<Rightarrow> dflt | Some v \<Rightarrow> v)"

definition CalculateNTFSTimeHash :: "'w env \<Rightarrow> TSK_FS_META \<Rightarrow> string" where
  "CalculateNTFSTimeHash env meta =
     md5_hexdigest env
       ((''atime:'' @ str_int (getattr (atime meta) 0) @ ''.''
           @ str_int (getattr (atime_nano meta) 0))
        @ (''crtime:'' @ str_int (getattr (crtime meta) 0) @ ''.''
           @ str_int (getattr (crtime_nano meta) 0))
        @ (''mtime:'' @ str_int (getattr (mtime meta) 0) @ ''.''
           @ str_int (getattr (mtime_nano meta) 0))
        @ (''ctime:'' @ str_int (getattr (ctime meta) 0) @ ''.''
           @ str_int (getattr (ctime_nano meta) 0)))"

subsection \<open>Results\<close>

text \<open>
  A method either returns a value or raises; either way it leaves a state and the events
  it caused. \<open>emit\<close> puts events that happened earlier in front.
\<close>

type_synonym ('a, 'w) result = "(exn + 'a) \<times> 'w state \<times> event list"

definition emit :: "event list \<Rightarrow> ('a, 'w) result \<Rightarrow> ('a, 'w) result" where
  "emit evs r = (case r of (x, s, es) \<Rightarrow> (x, s, evs @ es))"

definition emit_opt :: "event list \<Rightarrow> ('a, 'w) result option \<Rightarrow> ('a, 'w) result option" where
  "emit_opt evs r = map_option (emit evs) r"

subsection \<open>Names of the module\<close>

text \<open>
  A name a method reads without assigning it is looked up, when the statement runs, among
  the names bound in the module (none of the names read below is a builtin); a name that
  is not bound there raises \<open>NameError\<close>. \<open>module_globals\<close> are the names collector.py
  binds at its top level: its imports and its classes. The methods below take the
  bound names as their first argument, and a collector of this module runs them with
  \<open>module_globals\<close>.
\<close>

definition module_globals :: "string list" where
  "module_globals =
     [''abc'', ''hashlib'', ''logging'', ''os'', ''pytsk3'', ''collector_filter'', ''errors'',
      ''event'', ''pfile'', ''preprocess'', ''queue'', ''utils'', ''vss'', ''Collector'',
      ''SimpleFileCollector'', ''SimpleImageCollector'', ''TargetedFileSystemCollector'',
      ''TargetedImageCollector'']"

definition LOAD_GLOBAL :: "string list \<Rightarrow> string \<Rightarrow> exn + string" where
  "LOAD_GLOBAL globals n = (if n \<in> set globals then Inr n else Inl (NameError n))"

subsection \<open>\<open>SimpleImageCollector.ParseImageDir\<close>: one directory\<close>

text \<open>
  The \<open>try\<close> block of the loop over the entries of a directory, lines 238 to 254. It
  ends in \<open>continue\<close>, in \<open>AttributeError\<close>, or with \<open>name_str\<close>, \<open>inode_addr\<close> and
  \<open>f_type\<close> assigned. \<open>name_str\<close> is a local variable of the method: it is unbound
  (\<open>None\<close>) until the block assigns it, and keeps its value from one entry to the next.
\<close>

datatype try_result =
    TryContinue
  | TryAttributeError string
  | TryOk string int TSK_FS_META_TYPE TSK_FS_META

definition try_block :: "TSK_FS_FILE \<Rightarrow> string option \<Rightarrow> try_result \<times> string option" where
  "try_block f name_str =
     (case info_name f of
        AttributeError e \<Rightarrow> (TryAttributeError e, name_str)
      | Attr None \<Rightarrow> (TryContinue, name_str)
      | Attr (Some tsk_name) \<Rightarrow>
          (case name_flags tsk_name of
             AttributeError e \<Rightarrow> (TryAttributeError e, name_str)
           | Attr flags \<Rightarrow>
               if flags = TSK_FS_NAME_FLAG_UNALLOC then (TryContinue, name_str)
               else
                 (case info_meta f of
                    AttributeError e \<Rightarrow> (TryAttributeError e, name_str)
                  | Attr None \<Rightarrow> (TryContinue, name_str)
                  | Attr (Some meta) \<Rightarrow>
                      (case name_name tsk_name of
                         AttributeError e \<Rightarrow> (TryAttributeError e, name_str)
                       | Attr n \<Rightarrow>
                           (case meta_addr meta of
                              AttributeError e \<Rightarrow> (TryAttributeError e, Some n)
                            | Attr inode_addr \<Rightarrow>
                                (case meta_type meta of
                                   AttributeError e \<Rightarrow> (TryAttributeError e, Some n)
                                 | Attr f_type \<Rightarrow>
                                     (TryOk n inode_addr f_type meta, Some n)))))))"

text \<open>The path specification of a regular file, lines 268 to 278.\<close>

definition transfer_proto ::
  "'w env \<Rightarrow> CacheFileSystem \<Rightarrow> string \<Rightarrow> string \<Rightarrow> int \<Rightarrow> EventPathSpec" where
  "transfer_proto env fs path name_str inode_addr =
     \<lparr>pathspec_type = (if fs_store_nr fs \<ge> 0 then ''VSS'' else ''TSK''),
      vss_store_number = (if fs_store_nr fs \<ge> 0 then Some (fs_store_nr fs) else None),
      container_path = Some (fs_path fs),
      image_offset = Some (fs_offset fs),
      image_inode = Some inode_addr,
      file_path = Some (GetUnicodeString env (os_path_join path name_str))\<rparr>"

text \<open>\<open>hash_value in self._hashlist[inode_addr]\<close>, guarded by \<open>inode_addr in self._hashlist\<close>.\<close>

definition in_hashlist :: "(int \<Rightarrow> string list option) \<Rightarrow> int \<Rightarrow> string \<Rightarrow> bool" where
  "in_hashlist h inode_addr hash_value =
     (case h inode_addr of None \<Rightarrow> False | Some hs \<Rightarrow> hash_value \<in> set hs)"

text \<open>\<open>self._hashlist.setdefault(inode_addr, []).append(hash_value)\<close>.\<close>

definition setdefault_append ::
  "(int \<Rightarrow> string list option) \<Rightarrow> int \<Rightarrow> string \<Rightarrow> (int \<Rightarrow> string list option)" where
  "setdefault_append h inode_addr hash_value =
     h(inode_addr \<mapsto> (case h inode_addr of None \<Rightarrow> [] | Some hs \<Rightarrow> hs) @ [hash_value])"

text \<open>
  The loop \<open>for f in directory\<close>, lines 237 to 294, with its local variables \<open>name_str\<close>
  and \<open>directories\<close>. It returns \<open>directories\<close>. The handler of \<open>AttributeError\<close> reads
  \<open>name_str\<close> for its log record, which raises \<open>UnboundLocalError\<close> while \<open>name_str\<close> is
  unbound.
\<close>

fun ParseImageDir_entries ::
  "'w env \<Rightarrow> collector \<Rightarrow> CacheFileSystem \<Rightarrow> string \<Rightarrow> TSK_FS_FILE list \<Rightarrow> string option \<Rightarrow>
   (int \<times> string) list \<Rightarrow> 'w state \<Rightarrow> ((int \<times> string) list, 'w) result" where
  "ParseImageDir_entries env cfg fs path [] name_str directories s = (Inr directories, s, [])"
| "ParseImageDir_entries env cfg fs path (f # rest) name_str directories s =
     (case try_block f name_str of
        (TryContinue, name_str') \<Rightarrow>
          ParseImageDir_entries env cfg fs path rest name_str' directories s
      | (TryAttributeError e, name_str') \<Rightarrow>
          (case name_str' of
             None \<Rightarrow> (Inl (UnboundLocalError ''name_str''), s, [])
           | Some n \<Rightarrow>
               emit [Log ERROR ''[ParseImage] Problem reading file [%s], error: %s'' [n, e]]
                 (ParseImageDir_entries env cfg fs path rest name_str' directories s))
      | (TryOk n inode_addr f_type meta, name_str') \<Rightarrow>
          if n \<in> set [''$OrphanFiles'', ''.'', ''..''] then
            ParseImageDir_entries env cfg fs path rest name_str' directories s
          else if f_type = TSK_FS_META_TYPE_DIR then
            ParseImageDir_entries env cfg fs path rest name_str'
              (directories @ [(inode_addr, os_path_join path n)]) s
          else if f_type = TSK_FS_META_TYPE_REG then
            (if self_vss cfg then
               (let hash_value = CalculateNTFSTimeHash env meta in
                if in_hashlist (hashlist s) inode_addr hash_value then
                  ParseImageDir_entries env cfg fs path rest name_str' directories s
                else
                  emit [Queue (transfer_proto env fs path n inode_addr)]
                    (ParseImageDir_entries env cfg fs path rest name_str' directories
                       (s\<lparr>hashlist := setdefault_append (hashlist s) inode_addr hash_value\<rparr>)))
             else
               emit [Queue (transfer_proto env fs path n inode_addr)]
                 (ParseImageDir_entries env cfg fs path rest name_str' directories s))
          else ParseImageDir_entries env cfg fs path rest name_str' directories s)"

subsection \<open>\<open>SimpleImageCollector.ParseImageDir\<close>: the recursive traversal\<close>

text \<open>
  The recursion follows the inodes the directories name, and a directory that names
  itself or an ancestor is followed for ever: the first argument bounds the depth of the
  recursion, and \<open>None\<close> is a walk that went deeper. A retry is a recursive call too.
  \<open>ParseImageDir_subdirs\<close> is the loop \<open>for inode_addr, path in directories\<close>.
\<close>

fun ParseImageDir ::
  "nat \<Rightarrow> 'w env \<Rightarrow> collector \<Rightarrow> CacheFileSystem \<Rightarrow> int \<Rightarrow> string \<Rightarrow> bool \<Rightarrow> 'w state \<Rightarrow>
   (unit, 'w) result option"
and ParseImageDir_subdirs ::
  "nat \<Rightarrow> 'w env \<Rightarrow> collector \<Rightarrow> CacheFileSystem \<Rightarrow> (int \<times> string) list \<Rightarrow> 'w state \<Rightarrow>
   (unit, 'w) result option" where
  "ParseImageDir 0 env cfg fs cur_inode path retry s = None"
| "ParseImageDir (Suc depth) env cfg fs cur_inode path retry s =
     (case open_dir env fs cur_inode (world s) of
        (None, w) \<Rightarrow>
          if \<not> retry then
            emit_opt
              [Log ERROR ''IOError while trying to open a directory: %s [%d]''
                 [path, str_int cur_inode],
               Log INFO ''Reopening directory due to an IOError: %s'' [path]]
              (ParseImageDir depth env cfg fs cur_inode path True (s\<lparr>world := w\<rparr>))
          else
            Some (Inr (), s\<lparr>world := w\<rparr>,
              [Log ERROR ''IOError while trying to open a directory: %s [%d]''
                 [path, str_int cur_inode]])
      | (Some directory, w) \<Rightarrow>
          (case ParseImageDir_entries env cfg fs path directory None [] (s\<lparr>world := w\<rparr>) of
             (Inl e, s', evs) \<Rightarrow> Some (Inl e, s', evs)
           | (Inr directories, s', evs) \<Rightarrow>
               emit_opt evs (ParseImageDir_subdirs depth env cfg fs directories s')))"
| "ParseImageDir_subdirs depth env cfg fs [] s = Some (Inr (), s, [])"
| "ParseImageDir_subdirs depth env cfg fs ((inode_addr, path) # rest) s =
     (case ParseImageDir depth env cfg fs inode_addr path False s of
        None \<Rightarrow> None
      | Some (Inl e, s', evs) \<Rightarrow> Some (Inl e, s', evs)
      | Some (Inr u, s', evs) \<Rightarrow>
          emit_opt evs (ParseImageDir_subdirs depth env cfg fs rest s'))"

subsection \<open>\<open>SimpleImageCollector.GetVssStores\<close>\<close>

text \<open>\<open>range(a, b)\<close> of Python 2: the list of the integers from \<open>a\<close> up to \<open>b - 1\<close>.\<close>

definition py_range :: "int \<Rightarrow> int \<Rightarrow> int list" where
  "py_range a b = [a..b - 1]"

text \<open>
  \<open>self._vss_stores\<close> is \<open>None\<close> unless the caller gave a list; \<open>if self._vss_stores\<close>
  is false for \<open>None\<close> and for the empty list.
\<close>

definition GetVssStores :: "'w env \<Rightarrow> collector \<Rightarrow> int \<Rightarrow> 'w \<Rightarrow> int list \<times> 'w \<times> event list" where
  "GetVssStores env cfg offset w =
     (if \<not> self_vss cfg then ([], w, [])
      else
        (case store_count env (self_image cfg) offset w of
           (vss_numbers, w') \<Rightarrow>
             ((case self_vss_stores cfg of
                 None \<Rightarrow> py_range 0 vss_numbers
               | Some vss_stores \<Rightarrow>
                   if vss_stores \<noteq> [] then
                     filter (\<lambda>nr. nr > 0 \<and> nr \<le> vss_numbers) vss_stores
                   else py_range 0 vss_numbers),
              w',
              [Log DEBUG ''Searching for VSS'' [], VssStoreCount (self_image cfg) offset])))"

subsection \<open>\<open>SimpleImageCollector.CollectFromVss\<close> and \<open>Collect\<close>\<close>

definition CollectFromVss ::
  "nat \<Rightarrow> 'w env \<Rightarrow> collector \<Rightarrow> string \<Rightarrow> int \<Rightarrow> int \<Rightarrow> 'w state \<Rightarrow> (unit, 'w) result option" where
  "CollectFromVss depth env cfg image_path store_nr offset s =
     (let ev0 = [Log DEBUG ''Collecting from VSS store %d'' [str_int store_nr],
                 FsOpen image_path offset store_nr];
          ev_done = [Log DEBUG ''Collection from VSS store: %d COMPLETED.'' [str_int store_nr]]
      in case fscache_Open env image_path offset store_nr (world s) of
           (Inl e, w) \<Rightarrow>
             Some (Inr (), s\<lparr>world := w\<rparr>,
               ev0 @ [Log ERROR ''Unable to read filesystem: %s.'' [e]] @ ev_done)
         | (Inr fs, w) \<Rightarrow>
             (case ParseImageDir depth env cfg fs (root_inum fs) ''/'' False (s\<lparr>world := w\<rparr>) of
                None \<Rightarrow> None
              | Some (Inl e, s', evs) \<Rightarrow> Some (Inl e, s', ev0 @ evs)
              | Some (Inr u, s', evs) \<Rightarrow> Some (Inr (), s', ev0 @ evs @ ev_done)))"

text \<open>
  The loop \<open>for store_nr in self.GetVssStores(offset)\<close>, lines 185 to 189. The arguments
  of the call of \<open>logging.info\<close> are evaluated first, and \<open>vss_numbers\<close> is not a local
  variable of \<open>Collect\<close>.
\<close>

fun Collect_stores ::
  "string list \<Rightarrow> nat \<Rightarrow> 'w env \<Rightarrow> collector \<Rightarrow> int \<Rightarrow> int list \<Rightarrow> 'w state \<Rightarrow> (unit, 'w) result option" where
  "Collect_stores globals depth env cfg offset [] s = Some (Inr (), s, [])"
| "Collect_stores globals depth env cfg offset (store_nr # rest) s =
     (case LOAD_GLOBAL globals ''vss_numbers'' of
        Inl e \<Rightarrow> Some (Inl e, s, [])
      | Inr vss_numbers \<Rightarrow>
          (let ev = [Log INFO ''Collecting from VSS store number: %d/%d''
                       [str_int (store_nr + 1), vss_numbers]]
           in case CollectFromVss depth env cfg (self_image cfg) store_nr offset s of
                None \<Rightarrow> None
              | Some (Inl e, s', evs) \<Rightarrow> Some (Inl e, s', ev @ evs)
              | Some (Inr u, s', evs) \<Rightarrow>
                  emit_opt (ev @ evs) (Collect_stores globals depth env cfg offset rest s')))"

definition SECTOR_SIZE :: int where
  "SECTOR_SIZE = 512"

text \<open>\<open>a or b\<close> on integers: \<open>a\<close> unless it is zero.\<close>

definition py_or :: "int \<Rightarrow> int \<Rightarrow> int" where
  "py_or a b = (if a \<noteq> 0 then a else b)"

definition SimpleImageCollector_Collect ::
  "string list \<Rightarrow> nat \<Rightarrow> 'w env \<Rightarrow> collector \<Rightarrow> 'w state \<Rightarrow> (unit, 'w) result option" where
  "SimpleImageCollector_Collect globals depth env cfg s =
     (let offset = py_or (self_offset_bytes cfg) (self_offset cfg * SECTOR_SIZE);
          ev0 = [Log DEBUG ''Collecting from an image file [%s]'' [self_image cfg],
                 FsOpen (self_image cfg) offset no_store];
          s0 = (if self_vss cfg then s\<lparr>hashlist := Map.empty\<rparr> else s)
      in case fscache_Open env (self_image cfg) offset no_store (world s0) of
           (Inl e, w) \<Rightarrow>
             Some (Inr (), s0\<lparr>world := w\<rparr>,
               ev0 @ [Log ERROR ''Unable to read image [no collection] - %s.'' [e]])
         | (Inr fs, w) \<Rightarrow>
             (case ParseImageDir depth env cfg fs (root_inum fs) os_path_sep False
                     (s0\<lparr>world := w\<rparr>) of
                None \<Rightarrow> None
              | Some (Inl e, s1, evs1) \<Rightarrow> Some (Inl e, s1, ev0 @ evs1)
              | Some (Inr u, s1, evs1) \<Rightarrow>
                  (let ev1 = (if self_vss cfg then [Log INFO ''Collecting from VSS.'' []] else [])
                   in case GetVssStores env cfg offset (world s1) of
                        (stores, w2, evs2) \<Rightarrow>
                          (case Collect_stores globals depth env cfg offset stores
                                  (s1\<lparr>world := w2\<rparr>) of
                             None \<Rightarrow> None
                           | Some (Inl e, s3, evs3) \<Rightarrow>
                               Some (Inl e, s3, ev0 @ evs1 @ ev1 @ evs2 @ evs3)
                           | Some (Inr u, s3, evs3) \<Rightarrow>
                               Some (Inr (), s3,
                                 ev0 @ evs1 @ ev1 @ evs2 @ evs3
                                 @ [Log DEBUG ''Simple Image Collector - Done.'' []])))))"

subsection \<open>\<open>TargetedImageCollector.Collect\<close>\<close>

text \<open>The loop over the stores, lines 394 to 403; its state is the world alone.\<close>

fun TargetedImageCollector_stores ::
  "string list \<Rightarrow> 'w env \<Rightarrow> collector \<Rightarrow> int \<Rightarrow> int list \<Rightarrow> 'w \<Rightarrow> (exn + unit) \<times> 'w \<times> event list" where
  "TargetedImageCollector_stores globals env cfg offset [] w = (Inr (), w, [])"
| "TargetedImageCollector_stores globals env cfg offset (store_nr # rest) w =
     (case LOAD_GLOBAL globals ''vss_numbers'' of
        Inl e \<Rightarrow> (Inl e, w, [])
      | Inr vss_numbers \<Rightarrow>
          (case GetPathSpecs env (Some store_nr) (self_image cfg) offset (self_file_filter cfg) w of
             (specs, w') \<Rightarrow>
               (case TargetedImageCollector_stores globals env cfg offset rest w' of
                  (r, w'', evs) \<Rightarrow>
                    (r, w'',
                     [Log INFO ''Collecting from VSS store number: %d/%d''
                        [str_int (store_nr + 1), vss_numbers],
                      VSSFileCollector (self_image cfg) store_nr offset]
                     @ map Queue specs @ evs))))"

text \<open>The \<open>finally\<close> clause logs whether or not the body raised.\<close>

definition TargetedImageCollector_Collect ::
  "string list \<Rightarrow> 'w env \<Rightarrow> collector \<Rightarrow> 'w state \<Rightarrow> (unit, 'w) result option" where
  "TargetedImageCollector_Collect globals env cfg s =
     (let offset = py_or (self_offset_bytes cfg) (self_offset cfg * SECTOR_SIZE);
          ev_finally = [Log DEBUG ''Targeted Image Collector - Done.'' []]
      in case GetPathSpecs env None (self_image cfg) offset (self_file_filter cfg) (world s) of
           (specs, w1) \<Rightarrow>
             (let ev1 = TSKFileCollector (self_image cfg) offset # map Queue specs
              in if self_vss cfg then
                   (case GetVssStores env cfg offset w1 of
                      (stores, w2, evs2) \<Rightarrow>
                        (case TargetedImageCollector_stores globals env cfg offset stores w2 of
                           (r, w3, evs3) \<Rightarrow>
                             Some (r, s\<lparr>world := w3\<rparr>,
                               ev1 @ [Log DEBUG ''Searching for VSS'' []] @ evs2 @ evs3
                               @ ev_finally)))
                 else Some (Inr (), s\<lparr>world := w1\<rparr>, ev1 @ ev_finally)))"

subsection \<open>\<open>Collector.Run\<close> and \<open>Collector.Close\<close>\<close>

definition Close :: "event list" where
  "Close = [QueueClose]"

text \<open>
  \<open>Run\<close> of any collector, whose \<open>Collect\<close> is the argument: \<open>self.Collect()\<close>, then
  \<open>self.Close()\<close>. There is no handler around the call, so an exception of \<open>Collect\<close>
  leaves \<open>Run\<close> before \<open>Close\<close>.
\<close>

definition Run ::
  "('s \<Rightarrow> ((exn + unit) \<times> 's \<times> event list) option) \<Rightarrow> 's \<Rightarrow>
   ((exn + unit) \<times> 's \<times> event list) option" where
  "Run collect s =
     (case collect s of
        None \<Rightarrow> None
      | Some (Inl e, s', evs) \<Rightarrow> Some (Inl e, s', evs)
      | Some (Inr u, s', evs) \<Rightarrow> Some (Inr (), s', evs @ Close))"

section \<open>What the events show\<close>

text \<open>
  The events of a walk of the volume \<open>fs\<close> are log records and path specifications that
  carry the container path, the offset and the store number of \<open>fs\<close>.
\<close>

fun walk_event :: "CacheFileSystem \<Rightarrow> event \<Rightarrow> bool" where
  "walk_event fs (Log l m a) = True"
| "walk_event fs (Queue p) =
     (pathspec_type p = (if fs_store_nr fs \<ge> 0 then ''VSS'' else ''TSK'') \<and>
      vss_store_number p = (if fs_store_nr fs \<ge> 0 then Some (fs_store_nr fs) else None) \<and>
      container_path p = Some (fs_path fs) \<and> image_offset p = Some (fs_offset fs))"
| "walk_event fs e = False"

text \<open>The offset a call to a collaborator is given.\<close>

fun event_offset :: "event \<Rightarrow> int option" where
  "event_offset (FsOpen p off nr) = Some off"
| "event_offset (VssStoreCount p off) = Some off"
| "event_offset (TSKFileCollector p off) = Some off"
| "event_offset (VSSFileCollector p nr off) = Some off"
| "event_offset e = None"

section \<open>A small image\<close>

text \<open>
  The metadata of an inode with the modification time \<open>m\<close>, and an allocated entry
  whose attributes can all be read: its name, inode, type and modification time.
\<close>

definition entry_meta :: "int \<Rightarrow> TSK_FS_META_TYPE \<Rightarrow> int \<Rightarrow> TSK_FS_META" where
  "entry_meta a t m =
     \<lparr>meta_addr = Attr a, meta_type = Attr t,
      atime = Some 1, atime_nano = None, crtime = Some 2, crtime_nano = Some 0,
      mtime = Some m, mtime_nano = Some 5, ctime = None, ctime_nano = None\<rparr>"

definition entry :: "string \<Rightarrow> int \<Rightarrow> TSK_FS_META_TYPE \<Rightarrow> int \<Rightarrow> TSK_FS_FILE" where
  "entry n a t m =
     \<lparr>info_name = Attr (Some \<lparr>name_flags = Attr TSK_FS_NAME_FLAG_ALLOC, name_name = Attr n\<rparr>),
      info_meta = Attr (Some (entry_meta a t m))\<rparr>"

text \<open>
  The root directory (inode 2) holds the files \<open>a\<close> and \<open>b\<close>, two names of inode 5, and
  the directory \<open>d\<close> (inode 3), which holds the file \<open>c\<close> (inode 6). The volume has three
  snapshot stores. The world counts the directories opened.
\<close>

definition demo_env :: "nat env" where
  "demo_env =
     \<lparr>vol_open = (\<lambda>p off nr w. (Inr 2, w)),
      open_dir = (\<lambda>fs i w.
        (if i = 2 then
           Some [entry ''a'' 5 TSK_FS_META_TYPE_REG 7, entry ''d'' 3 TSK_FS_META_TYPE_DIR 7,
                 entry ''b'' 5 TSK_FS_META_TYPE_REG 7]
         else if i = 3 then Some [entry ''c'' 6 TSK_FS_META_TYPE_REG 9]
         else None, Suc w)),
      store_count = (\<lambda>p off w. (3, w)),
      md5_hexdigest = (\<lambda>b. b),
      GetUnicodeString = (\<lambda>b. b),
      GetPathSpecs = (\<lambda>nr p off f w. ([], w))\<rparr>"

definition demo_cfg :: collector where
  "demo_cfg =
     \<lparr>self_image = ''img'', self_offset = 63, self_offset_bytes = 0, self_vss = False,
      self_vss_stores = None, self_file_filter = ''f''\<rparr>"

definition demo_state :: "nat state" where
  "demo_state = \<lparr>hashlist = Map.empty, world = 0\<rparr>"

text \<open>The handle of the main volume of the image, at sector 63.\<close>

definition demo_fs :: CacheFileSystem where
  "demo_fs = \<lparr>fs_path = ''img'', fs_offset = 32256, fs_store_nr = - 1, root_inum = 2\<rparr>"

text \<open>
  A volume whose root directory (inode 2) holds the directories \<open>d\<close> (inode 3, with the
  file \<open>c\<close>) and \<open>e\<close> (inode 4, with the file \<open>g\<close>). Opening \<open>d\<close> fails with \<open>IOError\<close> as
  long as fewer than \<open>k\<close> directories have been opened or tried; the world counts them.
\<close>

definition flaky_env :: "nat \<Rightarrow> nat env" where
  "flaky_env k =
     \<lparr>vol_open = (\<lambda>p off nr w. (Inr 2, w)),
      open_dir = (\<lambda>fs i w.
        (if i = 2 then
           Some [entry ''d'' 3 TSK_FS_META_TYPE_DIR 7, entry ''e'' 4 TSK_FS_META_TYPE_DIR 7]
         else if i = 3 then
           (if w < k then None else Some [entry ''c'' 6 TSK_FS_META_TYPE_REG 9])
         else if i = 4 then Some [entry ''g'' 8 TSK_FS_META_TYPE_REG 9]
         else None, Suc w)),
      store_count = (\<lambda>p off w. (0, w)),
      md5_hexdigest = (\<lambda>b. b),
      GetUnicodeString = (\<lambda>b. b),
      GetPathSpecs = (\<lambda>nr p off f w. ([], w))\<rparr>"

text \<open>
  An allocated entry whose name can be read and whose metadata cannot: reading
  \<open>f.info.meta\<close> raises \<open>AttributeError\<close>. And a volume whose root directory (inode 2)
  lists the given entries.
\<close>

definition unreadable :: "string \<Rightarrow> TSK_FS_FILE" where
  "unreadable n =
     \<lparr>info_name = Attr (Some \<lparr>name_flags = Attr TSK_FS_NAME_FLAG_ALLOC, name_name = Attr n\<rparr>),
      info_meta = AttributeError ''meta''\<rparr>"

definition listing_env :: "TSK_FS_FILE list \<Rightarrow> nat env" where
  "listing_env es =
     \<lparr>vol_open = (\<lambda>p off nr w. (Inr 2, w)),
      open_dir = (\<lambda>fs i w. (if i = 2 then Some es else None, Suc w)),
      store_count = (\<lambda>p off w. (0, w)),
      md5_hexdigest = (\<lambda>b. b),
      GetUnicodeString = (\<lambda>b. b),
      GetPathSpecs = (\<lambda>nr p off f w. ([], w))\<rparr>"

section \<open>Auxiliary facts\<close>

lemma emit_simp [simp]: "emit evs (x, s, es) = (x, s, evs @ es)"
  by (simp add: emit_def)

lemma emit_opt_simps [simp]:
  "emit_opt evs None = None"
  "emit_opt evs (Some (x, s, es)) = Some (x, s, evs @ es)"
  by (simp_all add: emit_opt_def)

lemma emit_eq_iff:
  "emit evs r = (x, s, es) \<longleftrightarrow> (\<exists>es'. r = (x, s, es') \<and> es = evs @ es')"
  by (cases r) auto

lemma emit_opt_eq_Some:
  "emit_opt evs r = Some (x, s, es) \<longleftrightarrow> (\<exists>es'. r = Some (x, s, es') \<and> es = evs @ es')"
  by (cases r) auto

lemma opened_stores_append [simp]: "opened_stores (xs @ ys) = opened_stores xs @ opened_stores ys"
  by (induction xs rule: opened_stores.induct) auto

lemma queued_append [simp]: "queued (xs @ ys) = queued xs @ queued ys"
  by (induction xs rule: queued.induct) auto

lemma closes_append [simp]: "closes (xs @ ys) = closes xs + closes ys"
  by (simp add: closes_def)

section \<open>The selection of the snapshot stores\<close>

lemma GetVssStores_fst:
  "store_count env (self_image cfg) offset w = (N, w') \<Longrightarrow>
   fst (GetVssStores env cfg offset w) =
     (if \<not> self_vss cfg then []
      else case self_vss_stores cfg of
             None \<Rightarrow> [0..N - 1]
           | Some l \<Rightarrow> if l \<noteq> [] then filter (\<lambda>nr. nr > 0 \<and> nr \<le> N) l else [0..N - 1])"
  by (simp add: GetVssStores_def py_range_def split: option.split)

lemma filter_positive:
  "filter (\<lambda>nr::int. nr > 0 \<and> nr \<le> N) l = filter (\<lambda>nr. 1 \<le> nr \<and> nr \<le> N) l"
  by (rule filter_cong) auto

lemma set_upto_range: "set [0..N - 1] = {0..<N::int}"
  by auto

text \<open>
  Claim C5, amended. With snapshot collection disabled no store is selected. With a
  non-empty list of store numbers configured, the stores selected are exactly the numbers
  of the list that lie in \<open>[1, N]\<close>, in the order of the list. With no list configured,
  or with the empty list configured (line 157 tests the list for truth, and Python takes
  the empty list for false), every store of \<open>[0, N)\<close> is selected.
\<close>

theorem GetVssStores_selection:
  assumes "store_count env (self_image cfg) offset w = (N, w')"
  shows "(\<not> self_vss cfg \<longrightarrow> fst (GetVssStores env cfg offset w) = []) \<and>
         (self_vss cfg \<and> self_vss_stores cfg = Some l \<and> l \<noteq> [] \<longrightarrow>
            fst (GetVssStores env cfg offset w) = filter (\<lambda>nr. 1 \<le> nr \<and> nr \<le> N) l \<and>
            set (fst (GetVssStores env cfg offset w)) = set l \<inter> {1..N}) \<and>
         (self_vss cfg \<and> (self_vss_stores cfg = None \<or> self_vss_stores cfg = Some []) \<longrightarrow>
            fst (GetVssStores env cfg offset w) = [0..N - 1] \<and>
            set (fst (GetVssStores env cfg offset w)) = {0..<N})"
proof (intro conjI impI)
  assume "\<not> self_vss cfg"
  then show "fst (GetVssStores env cfg offset w) = []"
    by (simp add: GetVssStores_fst[OF assms])
next
  assume a: "self_vss cfg \<and> self_vss_stores cfg = Some l \<and> l \<noteq> []"
  then show f: "fst (GetVssStores env cfg offset w) = filter (\<lambda>nr. 1 \<le> nr \<and> nr \<le> N) l"
    by (simp add: GetVssStores_fst[OF assms] filter_positive)
  show "set (fst (GetVssStores env cfg offset w)) = set l \<inter> {1..N}"
    unfolding f by auto
next
  assume a: "self_vss cfg \<and> (self_vss_stores cfg = None \<or> self_vss_stores cfg = Some [])"
  then show f: "fst (GetVssStores env cfg offset w) = [0..N - 1]"
    by (auto simp: GetVssStores_fst[OF assms])
  show "set (fst (GetVssStores env cfg offset w)) = {0..<N}"
    unfolding f by (rule set_upto_range)
qed

theorem GetVssStores_selection_witness:
  "fst (GetVssStores demo_env demo_cfg 0 0) = [] \<and>
   fst (GetVssStores demo_env (demo_cfg\<lparr>self_vss := True, self_vss_stores := Some [0, 2, 5]\<rparr>) 0 0)
     = [2] \<and>
   fst (GetVssStores demo_env (demo_cfg\<lparr>self_vss := True\<rparr>) 0 0) = [0, 1, 2]"
proof -
  have sc: "store_count demo_env (self_image c) 0 0 = (3, 0)" for c
    by (simp add: demo_env_def)
  have up: "[0..3 - 1] = [0, 1, 2::int]"
    by (simp add: upto.simps)
  have off: "\<not> self_vss demo_cfg"
    by (simp add: demo_cfg_def)
  have lst: "self_vss (demo_cfg\<lparr>self_vss := True, self_vss_stores := Some [0, 2, 5]\<rparr>) \<and>
      self_vss_stores (demo_cfg\<lparr>self_vss := True, self_vss_stores := Some [0, 2, 5]\<rparr>)
        = Some [0, 2, 5] \<and> [0, 2, 5::int] \<noteq> []"
    by simp
  have non: "self_vss (demo_cfg\<lparr>self_vss := True\<rparr>) \<and>
      (self_vss_stores (demo_cfg\<lparr>self_vss := True\<rparr>) = None \<or>
       self_vss_stores (demo_cfg\<lparr>self_vss := True\<rparr>) = Some [])"
    by (simp add: demo_cfg_def)
  from GetVssStores_selection[OF sc, of demo_cfg] off
  have 1: "fst (GetVssStores demo_env demo_cfg 0 0) = []"
    by blast
  from GetVssStores_selection[OF sc,
      of "demo_cfg\<lparr>self_vss := True, self_vss_stores := Some [0, 2, 5]\<rparr>" "[0, 2, 5]"] lst
  have 2: "fst (GetVssStores demo_env
      (demo_cfg\<lparr>self_vss := True, self_vss_stores := Some [0, 2, 5]\<rparr>) 0 0) = [2]"
    by simp
  from GetVssStores_selection[OF sc, of "demo_cfg\<lparr>self_vss := True\<rparr>"] non up
  have 3: "fst (GetVssStores demo_env (demo_cfg\<lparr>self_vss := True\<rparr>) 0 0) = [0, 1, 2]"
    by (simp add: demo_cfg_def)
  from 1 2 3 show ?thesis by blast
qed

text \<open>
  The claim as worded has no side condition on the configured list. With the empty list
  configured and three stores on the volume, the requested numbers lying in \<open>[1, 3]\<close> are
  none, yet \<open>GetVssStores\<close> selects the stores 0, 1 and 2.
\<close>

theorem GetVssStores_empty_list_selects_every_store:
  "self_vss (demo_cfg\<lparr>self_vss := True, self_vss_stores := Some []\<rparr>) \<and>
   self_vss_stores (demo_cfg\<lparr>self_vss := True, self_vss_stores := Some []\<rparr>) = Some [] \<and>
   store_count demo_env (self_image (demo_cfg\<lparr>self_vss := True, self_vss_stores := Some []\<rparr>)) 0 0
     = (3, 0) \<and>
   fst (GetVssStores demo_env (demo_cfg\<lparr>self_vss := True, self_vss_stores := Some []\<rparr>) 0 0)
     = [0, 1, 2] \<and>
   fst (GetVssStores demo_env (demo_cfg\<lparr>self_vss := True, self_vss_stores := Some []\<rparr>) 0 0)
     \<noteq> filter (\<lambda>nr. 1 \<le> nr \<and> nr \<le> 3) []"
  by (simp add: GetVssStores_def py_range_def upto.simps demo_env_def)

section \<open>The events of a walk and of \<open>Collect\<close>\<close>

lemma walk_event_transfer_proto [simp]:
  "walk_event fs (Queue (transfer_proto env fs path n i))"
  by (simp add: transfer_proto_def)

lemma entries_walk_events:
  "ParseImageDir_entries env cfg fs path es ns ds s = (r, s', evs) \<Longrightarrow> list_all (walk_event fs) evs"
proof (induction es arbitrary: ns ds s r s' evs)
  case Nil
  then show ?case by simp
next
  case (Cons f es)
  then show ?case
    by (auto simp: Let_def emit_eq_iff transfer_proto_def split: prod.splits try_result.splits option.splits if_splits)
qed

lemma ParseImageDir_walk_events:
  "(ParseImageDir depth env cfg fs i path retry s = Some (r, s', evs) \<longrightarrow> list_all (walk_event fs) evs)"
  "(ParseImageDir_subdirs depth env cfg fs ds s = Some (r, s', evs) \<longrightarrow> list_all (walk_event fs) evs)"
proof (induction depth env cfg fs i path retry s and depth env cfg fs ds s arbitrary: r s' evs and r s' evs
    rule: ParseImageDir_ParseImageDir_subdirs.induct)
  case (1 env cfg fs cur_inode path retry s)
  then show ?case by simp
next
  case (2 depth env cfg fs cur_inode path retry s)
  then show ?case
    by (auto simp: emit_opt_eq_Some split: prod.splits option.splits if_splits sum.splits dest: entries_walk_events)
next
  case (3 depth env cfg fs s)
  then show ?case by simp
next
  case (4 depth env cfg fs inode_addr path rest s)
  then show ?case
    by (auto simp: emit_opt_eq_Some split: prod.splits option.splits if_splits sum.splits)
qed

lemma walk_event_cases:
  "walk_event fs e \<Longrightarrow> e \<noteq> QueueClose \<and> event_offset e = None \<and> opened_stores [e] = []"
  by (cases e) auto

lemma walk_events_closes: "list_all (walk_event fs) evs \<Longrightarrow> closes evs = 0"
  by (induction evs) (auto simp: closes_def dest: walk_event_cases)


lemma walk_events_offset: "list_all (walk_event fs) evs \<Longrightarrow> e \<in> set evs \<Longrightarrow> event_offset e = None"
  by (auto simp: list_all_iff dest: walk_event_cases)

lemma Collect_stores_cases:
  "Collect_stores module_globals depth env cfg offset stores s =
     (if stores = [] then Some (Inr (), s, []) else Some (Inl (NameError ''vss_numbers''), s, []))"
  by (cases stores) (simp_all add: LOAD_GLOBAL_def module_globals_def)

lemma TargetedImageCollector_stores_cases:
  "TargetedImageCollector_stores module_globals env cfg offset stores w =
     (if stores = [] then (Inr (), w, []) else (Inl (NameError ''vss_numbers''), w, []))"
  by (cases stores) (simp_all add: LOAD_GLOBAL_def module_globals_def)

lemma GetVssStores_events:
  "GetVssStores env cfg offset w = (stores, w', evs) \<Longrightarrow>
   evs = (if self_vss cfg then [Log DEBUG ''Searching for VSS'' [], VssStoreCount (self_image cfg) offset] else [])"
  by (auto simp: GetVssStores_def split: if_splits prod.splits)

lemma Collect_cases:
  assumes "SimpleImageCollector_Collect module_globals depth env cfg s = Some (r, s', evs)"
    and "offset = py_or (self_offset_bytes cfg) (self_offset cfg * SECTOR_SIZE)"
    and "ev0 = [Log DEBUG ''Collecting from an image file [%s]'' [self_image cfg],
                FsOpen (self_image cfg) offset no_store]"
    and "s0 = (if self_vss cfg then s\<lparr>hashlist := Map.empty\<rparr> else s)"
  obtains
    (unopened) e w where "fscache_Open env (self_image cfg) offset no_store (world s) = (Inl e, w)"
      "r = Inr ()" "s' = s0\<lparr>world := w\<rparr>"
      "evs = ev0 @ [Log ERROR ''Unable to read image [no collection] - %s.'' [e]]"
  | (raised) fs w e evs1 where "fscache_Open env (self_image cfg) offset no_store (world s) = (Inr fs, w)"
      "ParseImageDir depth env cfg fs (root_inum fs) os_path_sep False (s0\<lparr>world := w\<rparr>) = Some (Inl e, s', evs1)"
      "r = Inl e" "evs = ev0 @ evs1"
  | (no_stores) fs w s1 evs1 w2 evs2 where "fscache_Open env (self_image cfg) offset no_store (world s) = (Inr fs, w)"
      "ParseImageDir depth env cfg fs (root_inum fs) os_path_sep False (s0\<lparr>world := w\<rparr>) = Some (Inr (), s1, evs1)"
      "GetVssStores env cfg offset (world s1) = ([], w2, evs2)"
      "r = Inr ()" "s' = s1\<lparr>world := w2\<rparr>"
      "evs = ev0 @ evs1 @ (if self_vss cfg then [Log INFO ''Collecting from VSS.'' []] else []) @ evs2
             @ [Log DEBUG ''Simple Image Collector - Done.'' []]"
  | (name_error) fs w s1 evs1 stores w2 evs2 where "fscache_Open env (self_image cfg) offset no_store (world s) = (Inr fs, w)"
      "ParseImageDir depth env cfg fs (root_inum fs) os_path_sep False (s0\<lparr>world := w\<rparr>) = Some (Inr (), s1, evs1)"
      "GetVssStores env cfg offset (world s1) = (stores, w2, evs2)" "stores \<noteq> []"
      "r = Inl (NameError ''vss_numbers'')" "s' = s1\<lparr>world := w2\<rparr>"
      "evs = ev0 @ evs1 @ (if self_vss cfg then [Log INFO ''Collecting from VSS.'' []] else []) @ evs2"
proof -
  have w0: "world s0 = world s"
    using assms(4) by simp
  obtain x w where o: "fscache_Open env (self_image cfg) offset no_store (world s) = (x, w)"
    by (cases "fscache_Open env (self_image cfg) offset no_store (world s)")
  show thesis
  proof (cases x)
    case (Inl e)
    with assms o w0 show thesis
      by (intro unopened[of e w]) (simp_all add: SimpleImageCollector_Collect_def Let_def)
  next
    case (Inr fs)
    note fs = this
    from assms o w0 fs obtain res where
      p: "ParseImageDir depth env cfg fs (root_inum fs) os_path_sep False (s0\<lparr>world := w\<rparr>) = Some res"
      by (cases "ParseImageDir depth env cfg fs (root_inum fs) os_path_sep False (s0\<lparr>world := w\<rparr>)")
         (simp_all add: SimpleImageCollector_Collect_def Let_def)
    obtain x1 s1 evs1 where res: "res = (x1, s1, evs1)"
      by (cases res)
    show thesis
    proof (cases x1)
      case (Inl e)
      with assms o w0 fs p res show thesis
        by (intro raised[of fs w e evs1]) (simp_all add: SimpleImageCollector_Collect_def Let_def)
    next
      case (Inr u)
      obtain stores w2 evs2 where g: "GetVssStores env cfg offset (world s1) = (stores, w2, evs2)"
        by (cases "GetVssStores env cfg offset (world s1)")
      show thesis
      proof (cases "stores = []")
        case True
        with assms o w0 fs p res Inr g show thesis
          by (intro no_stores[of fs w s1 evs1 w2 evs2])
             (simp_all add: SimpleImageCollector_Collect_def Let_def Collect_stores_cases)
      next
        case False
        with assms o w0 fs p res Inr g show thesis
          by (intro name_error[of fs w s1 evs1 stores w2 evs2])
             (simp_all add: SimpleImageCollector_Collect_def Let_def Collect_stores_cases)
      qed
    qed
  qed
qed

lemma py_or_offset:
  "py_or (self_offset_bytes cfg) (self_offset cfg * SECTOR_SIZE) =
   (if self_offset_bytes cfg \<noteq> 0 then self_offset_bytes cfg else self_offset cfg * 512)"
  by (simp add: py_or_def SECTOR_SIZE_def)

lemma fscache_Open_fs:
  "fscache_Open env p off nr w = (Inr fs, w') \<Longrightarrow>
   fs_path fs = p \<and> fs_offset fs = off \<and> fs_store_nr fs = nr"
  by (auto simp: fscache_Open_def split: prod.splits sum.splits)

lemma Targeted_Collect_eq:
  "TargetedImageCollector_Collect module_globals env cfg s =
     (case GetPathSpecs env None (self_image cfg)
             (py_or (self_offset_bytes cfg) (self_offset cfg * SECTOR_SIZE))
             (self_file_filter cfg) (world s) of
        (specs, w1) \<Rightarrow>
          if self_vss cfg then
            (case GetVssStores env cfg
                    (py_or (self_offset_bytes cfg) (self_offset cfg * SECTOR_SIZE)) w1 of
               (stores, w2, evs2) \<Rightarrow>
                 Some (if stores = [] then Inr () else Inl (NameError ''vss_numbers''),
                       s\<lparr>world := w2\<rparr>,
                       TSKFileCollector (self_image cfg)
                         (py_or (self_offset_bytes cfg) (self_offset cfg * SECTOR_SIZE))
                       # map Queue specs @ [Log DEBUG ''Searching for VSS'' []] @ evs2
                       @ [Log DEBUG ''Targeted Image Collector - Done.'' []]))
          else
            Some (Inr (), s\<lparr>world := w1\<rparr>,
                  TSKFileCollector (self_image cfg)
                    (py_or (self_offset_bytes cfg) (self_offset cfg * SECTOR_SIZE))
                  # map Queue specs @ [Log DEBUG ''Targeted Image Collector - Done.'' []]))"
  by (simp add: TargetedImageCollector_Collect_def Let_def TargetedImageCollector_stores_cases
      split: prod.splits)

lemma event_offset_map_Queue: "e \<in> set (map Queue specs) \<Longrightarrow> event_offset e = None"
  by auto

lemma closes_map_Queue [simp]: "closes (map Queue specs) = 0"
  by (induction specs) (auto simp: closes_def)

lemma closes_Cons_simps [simp]:
  "closes [] = 0"
  "closes (QueueClose # es) = Suc (closes es)"
  "closes (Queue p # es) = closes es"
  "closes (FsOpen a b c # es) = closes es"
  "closes (VssStoreCount a b # es) = closes es"
  "closes (TSKFileCollector a b # es) = closes es"
  "closes (VSSFileCollector a b c # es) = closes es"
  "closes (Log l m as # es) = closes es"
  by (simp_all add: closes_def)

lemma GetVssStores_closes: "GetVssStores env cfg offset w = (stores, w', evs) \<Longrightarrow> closes evs = 0"
  by (drule GetVssStores_events) simp

lemma Collect_closes:
  assumes "SimpleImageCollector_Collect module_globals depth env cfg s = Some (r, s', evs)"
  shows "closes evs = 0"
  using assms
  by (rule Collect_cases[OF _ refl refl refl])
     (auto simp: walk_events_closes
           dest!: ParseImageDir_walk_events(1)[rule_format] GetVssStores_closes)

lemma Targeted_closes:
  assumes "TargetedImageCollector_Collect module_globals env cfg s = Some (r, s', evs)"
  shows "closes evs = 0"
  using assms unfolding Targeted_Collect_eq
  by (auto split: prod.splits if_splits dest!: GetVssStores_closes)

section \<open>The small image, evaluated\<close>

lemma try_block_entry [simp]:
  "try_block (entry n a t m) ns = (TryOk n a t (entry_meta a t m), Some n)"
  by (simp add: try_block_def entry_def entry_meta_def)

lemma demo_env_simps [simp]:
  "vol_open demo_env p off nr w = (Inr 2, w)"
  "open_dir demo_env fs i w =
     (if i = 2 then
        Some [entry ''a'' 5 TSK_FS_META_TYPE_REG 7, entry ''d'' 3 TSK_FS_META_TYPE_DIR 7,
              entry ''b'' 5 TSK_FS_META_TYPE_REG 7]
      else if i = 3 then Some [entry ''c'' 6 TSK_FS_META_TYPE_REG 9]
      else None, Suc w)"
  "store_count demo_env p off w = (3, w)"
  "md5_hexdigest demo_env = (\<lambda>b. b)"
  "GetUnicodeString demo_env = (\<lambda>b. b)"
  "GetPathSpecs demo_env snr p off f w = ([], w)"
  by (simp_all add: demo_env_def)

lemma demo_cfg_simps [simp]:
  "self_image demo_cfg = ''img''"
  "self_offset demo_cfg = 63"
  "self_offset_bytes demo_cfg = 0"
  "self_vss demo_cfg = False"
  "self_vss_stores demo_cfg = None"
  "self_file_filter demo_cfg = ''f''"
  by (simp_all add: demo_cfg_def)

lemma demo_walk_vss:
  "self_vss cfg \<Longrightarrow>
   ParseImageDir 3 demo_env cfg fs 2 ''/'' False \<lparr>hashlist = Map.empty, world = w\<rparr> =
     Some (Inr (),
       \<lparr>hashlist = [5 \<mapsto> [CalculateNTFSTimeHash demo_env (entry_meta 5 TSK_FS_META_TYPE_REG 7)],
                    6 \<mapsto> [CalculateNTFSTimeHash demo_env (entry_meta 6 TSK_FS_META_TYPE_REG 9)]],
        world = Suc (Suc w)\<rparr>,
       [Queue (transfer_proto demo_env fs ''/'' ''a'' 5),
        Queue (transfer_proto demo_env fs ''/d'' ''c'' 6)])"
  by (simp add: eval_nat_numeral in_hashlist_def setdefault_append_def os_path_join_def Let_def)

lemma demo_walk_plain:
  "\<not> self_vss cfg \<Longrightarrow>
   ParseImageDir 3 demo_env cfg fs 2 ''/'' False \<lparr>hashlist = h, world = w\<rparr> =
     Some (Inr (), \<lparr>hashlist = h, world = Suc (Suc w)\<rparr>,
       [Queue (transfer_proto demo_env fs ''/'' ''a'' 5),
        Queue (transfer_proto demo_env fs ''/'' ''b'' 5),
        Queue (transfer_proto demo_env fs ''/d'' ''c'' 6)])"
  by (simp add: eval_nat_numeral os_path_join_def Let_def)

section \<open>\<open>Run\<close> and the end-of-stream signal\<close>

lemma Run_None: "collect s = None \<Longrightarrow> Run collect s = None"
  by (simp add: Run_def)

lemma Run_Some:
  "collect s = Some (r, s', evs) \<Longrightarrow>
   Run collect s = Some (r, s', if isl r then evs else evs @ [QueueClose])"
  by (cases r) (simp_all add: Run_def Close_def)

lemma Run_SomeD:
  assumes "Run collect s = Some (r, s', evs)"
  shows "\<exists>evs0. collect s = Some (r, s', evs0) \<and>
           evs = (if isl r then evs0 else evs0 @ [QueueClose])"
proof (cases "collect s")
  case None
  with assms show ?thesis by (simp add: Run_def)
next
  case (Some res)
  obtain r0 s0 evs0 where res: "res = (r0, s0, evs0)"
    by (cases res)
  from Run_Some[of collect s r0 s0 evs0] Some res assms show ?thesis
    by simp
qed

text \<open>
  Claim C1, amended. \<open>Run\<close> calls \<open>Collect\<close> and, when \<open>Collect\<close> returns (at its end or
  early), closes the queue after the last event of \<open>Collect\<close>; when \<open>Collect\<close> raises,
  the exception leaves \<open>Run\<close> and \<open>Run\<close> does not close the queue; when \<open>Collect\<close> does not
  return, neither does \<open>Run\<close>. The \<open>Collect\<close> of the image collectors never closes the
  queue itself, so their \<open>Run\<close> signals the end of the stream once when \<open>Collect\<close>
  returns and not at all when it raises.
\<close>

theorem Run_closes_after_Collect_returns:
  "(collect s = None \<longrightarrow> Run collect s = None) \<and>
   (collect s = Some (r, s', evs) \<longrightarrow>
      Run collect s = Some (r, s', if isl r then evs else evs @ [QueueClose])) \<and>
   (Run (SimpleImageCollector_Collect module_globals depth env cfg) s1 = Some (r1, s1', evs1) \<longrightarrow>
      closes evs1 = (if isl r1 then 0 else 1)) \<and>
   (Run (TargetedImageCollector_Collect module_globals env cfg) s2 = Some (r2, s2', evs2) \<longrightarrow>
      closes evs2 = (if isl r2 then 0 else 1))"
proof (intro conjI impI)
  assume "collect s = None"
  then show "Run collect s = None"
    by (rule Run_None)
next
  assume "collect s = Some (r, s', evs)"
  then show "Run collect s = Some (r, s', if isl r then evs else evs @ [QueueClose])"
    by (rule Run_Some)
next
  assume "Run (SimpleImageCollector_Collect module_globals depth env cfg) s1 = Some (r1, s1', evs1)"
  from Run_SomeD[OF this] obtain evs0 where
    c: "SimpleImageCollector_Collect module_globals depth env cfg s1 = Some (r1, s1', evs0)"
    and e: "evs1 = (if isl r1 then evs0 else evs0 @ [QueueClose])"
    by blast
  from Collect_closes[OF c] e show "closes evs1 = (if isl r1 then 0 else 1)"
    by simp
next
  assume "Run (TargetedImageCollector_Collect module_globals env cfg) s2 = Some (r2, s2', evs2)"
  from Run_SomeD[OF this] obtain evs0 where
    c: "TargetedImageCollector_Collect module_globals env cfg s2 = Some (r2, s2', evs0)"
    and e: "evs2 = (if isl r2 then evs0 else evs0 @ [QueueClose])"
    by blast
  from Targeted_closes[OF c] e show "closes evs2 = (if isl r2 then 0 else 1)"
    by simp
qed

lemma demo_offset [simp]:
  "py_or (self_offset_bytes demo_cfg) (self_offset demo_cfg * SECTOR_SIZE) = 32256"
  by (simp add: py_or_def SECTOR_SIZE_def)

lemma demo_Open [simp]:
  "fscache_Open demo_env ''img'' 32256 no_store w = (Inr demo_fs, w)"
  by (simp add: fscache_Open_def demo_fs_def no_store_def)

lemma demo_fs_root [simp]: "root_inum demo_fs = 2"
  by (simp add: demo_fs_def)

lemma demo_Collect_vss:
  "SimpleImageCollector_Collect module_globals 3 demo_env (demo_cfg\<lparr>self_vss := True\<rparr>) demo_state =
     Some (Inl (NameError ''vss_numbers''),
       \<lparr>hashlist = [5 \<mapsto> [CalculateNTFSTimeHash demo_env (entry_meta 5 TSK_FS_META_TYPE_REG 7)],
                    6 \<mapsto> [CalculateNTFSTimeHash demo_env (entry_meta 6 TSK_FS_META_TYPE_REG 9)]],
        world = 2\<rparr>,
       [Log DEBUG ''Collecting from an image file [%s]'' [''img''],
        FsOpen ''img'' 32256 no_store,
        Queue (transfer_proto demo_env demo_fs ''/'' ''a'' 5),
        Queue (transfer_proto demo_env demo_fs ''/d'' ''c'' 6),
        Log INFO ''Collecting from VSS.'' [],
        Log DEBUG ''Searching for VSS'' [],
        VssStoreCount ''img'' 32256])"
  by (simp add: SimpleImageCollector_Collect_def demo_state_def os_path_sep_def demo_walk_vss
      GetVssStores_def py_range_def Collect_stores_cases upto.simps Let_def py_or_def
      SECTOR_SIZE_def)

lemma demo_Collect_plain:
  "SimpleImageCollector_Collect module_globals 3 demo_env demo_cfg demo_state =
     Some (Inr (), \<lparr>hashlist = Map.empty, world = 2\<rparr>,
       [Log DEBUG ''Collecting from an image file [%s]'' [''img''],
        FsOpen ''img'' 32256 no_store,
        Queue (transfer_proto demo_env demo_fs ''/'' ''a'' 5),
        Queue (transfer_proto demo_env demo_fs ''/'' ''b'' 5),
        Queue (transfer_proto demo_env demo_fs ''/d'' ''c'' 6),
        Log DEBUG ''Simple Image Collector - Done.'' []])"
  by (simp add: SimpleImageCollector_Collect_def demo_state_def os_path_sep_def demo_walk_plain
      GetVssStores_def Collect_stores_cases Let_def py_or_def SECTOR_SIZE_def)

theorem Run_raises_without_close:
  "\<exists>s' evs. Run (SimpleImageCollector_Collect module_globals 3 demo_env (demo_cfg\<lparr>self_vss := True\<rparr>))
       demo_state = Some (Inl (NameError ''vss_numbers''), s', evs) \<and> closes evs = 0"
  using demo_Collect_vss by (simp add: Run_def)

theorem Run_closes_after_Collect_returns_witness:
  "(\<exists>s' evs. Run (SimpleImageCollector_Collect module_globals 3 demo_env demo_cfg) demo_state
       = Some (Inr (), s', evs @ [QueueClose]) \<and> closes (evs @ [QueueClose]) = 1) \<and>
   (\<exists>e s' evs. Run (SimpleImageCollector_Collect module_globals 3 demo_env
        (demo_cfg\<lparr>self_vss := True\<rparr>)) demo_state = Some (Inl e, s', evs) \<and> closes evs = 0)"
proof -
  note plain = Run_closes_after_Collect_returns[of
      "SimpleImageCollector_Collect module_globals 3 demo_env demo_cfg" demo_state
      "Inr ()" _ _ 3 demo_env demo_cfg demo_state "Inr ()"]
  note vss = Run_closes_after_Collect_returns[of
      "SimpleImageCollector_Collect module_globals 3 demo_env (demo_cfg\<lparr>self_vss := True\<rparr>)"
      demo_state "Inl (NameError ''vss_numbers'')" _ _ 3 demo_env
      "demo_cfg\<lparr>self_vss := True\<rparr>" demo_state "Inl (NameError ''vss_numbers'')"]
  from plain demo_Collect_plain have 1: "\<exists>s' evs. Run (SimpleImageCollector_Collect module_globals 3 demo_env demo_cfg) demo_state
       = Some (Inr (), s', evs @ [QueueClose]) \<and> closes (evs @ [QueueClose]) = 1"
    by simp
  from vss demo_Collect_vss have 2: "\<exists>e s' evs. Run (SimpleImageCollector_Collect module_globals 3 demo_env
        (demo_cfg\<lparr>self_vss := True\<rparr>)) demo_state = Some (Inl e, s', evs) \<and> closes evs = 0"
    by simp
  from 1 2 show ?thesis by blast
qed

section \<open>The unbound name in the store loops\<close>





lemma queued_map_Queue [simp]: "queued (map Queue specs) = specs"
  by (induction specs) auto




section \<open>The effective offset\<close>

lemma walk_events_at_offset:
  "list_all (walk_event fs) evs \<Longrightarrow> list_all (\<lambda>e. event_offset e \<in> {None, Some off}) evs"
  by (induction evs) (auto dest: walk_event_cases)

lemma walk_events_image_offset:
  "list_all (walk_event fs) evs \<Longrightarrow> \<forall>p\<in>set (queued evs). image_offset p = Some (fs_offset fs)"
  by (induction evs rule: queued.induct) auto

lemma CollectFromVss_offsets:
  assumes "CollectFromVss depth env cfg img nr offset s = Some (r, s', evs)"
  shows "list_all (\<lambda>e. event_offset e \<in> {None, Some offset}) evs \<and>
         (\<forall>p\<in>set (queued evs). image_offset p = Some offset)"
proof (cases "fscache_Open env img offset nr (world s)")
  case (Pair x w)
  show ?thesis
  proof (cases x)
    case (Inl e)
    with Pair assms show ?thesis
      by (auto simp: CollectFromVss_def Let_def)
  next
    case (Inr fs)
    from fscache_Open_fs[OF Pair[unfolded Inr]] have off: "fs_offset fs = offset"
      by simp
    from assms Pair Inr obtain r1 s1 evs1 where
      p: "ParseImageDir depth env cfg fs (root_inum fs) ''/'' False (s\<lparr>world := w\<rparr>) = Some (r1, s1, evs1)"
      and e: "evs = [Log DEBUG ''Collecting from VSS store %d'' [str_int nr], FsOpen img offset nr] @ evs1
                @ (if isl r1 then [] else [Log DEBUG ''Collection from VSS store: %d COMPLETED.'' [str_int nr]])"
      by (auto simp: CollectFromVss_def Let_def split: option.splits sum.splits)
    from ParseImageDir_walk_events(1)[rule_format, OF p] have w: "list_all (walk_event fs) evs1" .
    from walk_events_at_offset[OF w, of offset] walk_events_image_offset[OF w] off
    show ?thesis
      unfolding e by auto
  qed
qed

lemma Collect_stores_offsets:
  "Collect_stores g depth env cfg offset stores s = Some (r, s', evs) \<Longrightarrow>
   list_all (\<lambda>e. event_offset e \<in> {None, Some offset}) evs \<and>
   (\<forall>p\<in>set (queued evs). image_offset p = Some offset)"
proof (induction stores arbitrary: s r s' evs)
  case Nil
  then show ?case by simp
next
  case (Cons nr rest)
  show ?case
  proof (cases "LOAD_GLOBAL g ''vss_numbers''")
    case (Inl e)
    with Cons.prems show ?thesis by simp
  next
    case (Inr v)
    let ?ev = "[Log INFO ''Collecting from VSS store number: %d/%d'' [str_int (nr + 1), v]]"
    from Cons.prems Inr obtain r1 s1 evs1 where
      c: "CollectFromVss depth env cfg (self_image cfg) nr offset s = Some (r1, s1, evs1)"
      by (auto simp: Let_def split: option.splits)
    note o1 = CollectFromVss_offsets[OF c]
    show ?thesis
    proof (cases r1)
      case (Inl e)
      with Cons.prems Inr c have "evs = ?ev @ evs1"
        by (simp add: Let_def)
      with o1 show ?thesis by simp
    next
      case (Inr u)
      with Cons.prems \<open>LOAD_GLOBAL g ''vss_numbers'' = Inr v\<close> c obtain evs2 where
        r: "Collect_stores g depth env cfg offset rest s1 = Some (r, s', evs2)"
        and e: "evs = (?ev @ evs1) @ evs2"
        by (auto simp: Let_def emit_opt_eq_Some)
      from Cons.IH[OF r] o1 show ?thesis
        unfolding e by auto
    qed
  qed
qed

lemma Targeted_stores_offsets:
  "TargetedImageCollector_stores g env cfg offset stores w = (r, w', evs) \<Longrightarrow>
   list_all (\<lambda>e. event_offset e \<in> {None, Some offset}) evs"
proof (induction stores arbitrary: w r w' evs)
  case Nil
  then show ?case by simp
next
  case (Cons nr rest)
  show ?case
  proof (cases "LOAD_GLOBAL g ''vss_numbers''")
    case (Inl e)
    with Cons.prems show ?thesis by simp
  next
    case (Inr v)
    obtain specs w1 where gp:
      "GetPathSpecs env (Some nr) (self_image cfg) offset (self_file_filter cfg) w = (specs, w1)"
      by (cases "GetPathSpecs env (Some nr) (self_image cfg) offset (self_file_filter cfg) w")
    obtain r2 w2 evs2 where t: "TargetedImageCollector_stores g env cfg offset rest w1 = (r2, w2, evs2)"
      by (cases "TargetedImageCollector_stores g env cfg offset rest w1")
    from Cons.prems Inr gp t have e: "evs =
        [Log INFO ''Collecting from VSS store number: %d/%d'' [str_int (nr + 1), v],
         VSSFileCollector (self_image cfg) nr offset] @ map Queue specs @ evs2"
      by simp
    from Cons.IH[OF t] show ?thesis
      unfolding e by (auto simp: list_all_iff)
  qed
qed

lemma GetVssStores_offsets:
  "GetVssStores env cfg offset w = (stores, w', evs) \<Longrightarrow>
   list_all (\<lambda>e. event_offset e \<in> {None, Some offset}) evs"
  by (drule GetVssStores_events) simp

lemma GetVssStores_queued_nil:
  "GetVssStores env cfg offset w = (stores, w', evs) \<Longrightarrow> queued evs = []"
  by (drule GetVssStores_events) simp

lemma Simple_Collect_offsets:
  assumes "SimpleImageCollector_Collect g depth env cfg s = Some (r, s', evs)"
    and off: "offset = py_or (self_offset_bytes cfg) (self_offset cfg * SECTOR_SIZE)"
  shows "FsOpen (self_image cfg) offset no_store \<in> set evs \<and>
         list_all (\<lambda>e. event_offset e \<in> {None, Some offset}) evs \<and>
         (\<forall>p\<in>set (queued evs). image_offset p = Some offset)"
proof -
  define s0 where "s0 = (if self_vss cfg then s\<lparr>hashlist := Map.empty\<rparr> else s)"
  define ev0 where "ev0 = [Log DEBUG ''Collecting from an image file [%s]'' [self_image cfg],
                 FsOpen (self_image cfg) offset no_store]"
  have ev0: "FsOpen (self_image cfg) offset no_store \<in> set ev0"
     "list_all (\<lambda>e. event_offset e \<in> {None, Some offset}) ev0" "queued ev0 = []"
    by (simp_all add: ev0_def)
  obtain x w where o: "fscache_Open env (self_image cfg) offset no_store (world s0) = (x, w)"
    by (cases "fscache_Open env (self_image cfg) offset no_store (world s0)")
  note c = assms(1)[unfolded SimpleImageCollector_Collect_def Let_def, folded off, folded s0_def, folded ev0_def, unfolded o]
  show ?thesis
  proof (cases x)
    case (Inl e)
    with c have "evs = ev0 @ [Log ERROR ''Unable to read image [no collection] - %s.'' [e]]"
      by simp
    with ev0 show ?thesis by simp
  next
    case (Inr fs)
    from fscache_Open_fs[OF o[unfolded Inr]] have fo: "fs_offset fs = offset"
      by simp
    from c Inr obtain r1 s1 evs1 where
      p: "ParseImageDir depth env cfg fs (root_inum fs) os_path_sep False (s0\<lparr>world := w\<rparr>) = Some (r1, s1, evs1)"
      by (auto split: option.splits)
    from ParseImageDir_walk_events(1)[rule_format, OF p] have w: "list_all (walk_event fs) evs1" .
    note w1 = walk_events_at_offset[OF w, of offset] walk_events_image_offset[OF w, unfolded fo]
    show ?thesis
    proof (cases r1)
      case (Inl e)
      with c \<open>x = Inr fs\<close> p have "evs = ev0 @ evs1"
        by simp
      with ev0 w1 show ?thesis by simp
    next
      case (Inr u)
      obtain stores w2 evs2 where g: "GetVssStores env cfg offset (world s1) = (stores, w2, evs2)"
        by (cases "GetVssStores env cfg offset (world s1)")
      from c \<open>x = Inr fs\<close> p Inr g obtain r3 s3 evs3 where
        cs: "Collect_stores g depth env cfg offset stores (s1\<lparr>world := w2\<rparr>) = Some (r3, s3, evs3)"
        by (auto split: option.splits)
      let ?ev1 = "if self_vss cfg then [Log INFO ''Collecting from VSS.'' []] else []"
      from c \<open>x = Inr fs\<close> p Inr g cs have
        e: "evs = ev0 @ evs1 @ ?ev1 @ evs2 @ evs3 @
              (if isl r3 then [] else [Log DEBUG ''Simple Image Collector - Done.'' []])"
        by (cases r3) auto
      from ev0 w1 GetVssStores_offsets[OF g] GetVssStores_queued_nil[OF g] Collect_stores_offsets[OF cs]
      show ?thesis
        unfolding e by auto
    qed
  qed
qed

lemma Targeted_Collect_offsets:
  assumes "TargetedImageCollector_Collect g env cfg s = Some (r, s', evs)"
    and off: "offset = py_or (self_offset_bytes cfg) (self_offset cfg * SECTOR_SIZE)"
  shows "TSKFileCollector (self_image cfg) offset \<in> set evs \<and>
         list_all (\<lambda>e. event_offset e \<in> {None, Some offset}) evs"
proof -
  obtain specs w1 where gp: "GetPathSpecs env None (self_image cfg) offset (self_file_filter cfg) (world s) = (specs, w1)"
    by (cases "GetPathSpecs env None (self_image cfg) offset (self_file_filter cfg) (world s)")
  obtain stores w2 evs2 where g: "GetVssStores env cfg offset w1 = (stores, w2, evs2)"
    by (cases "GetVssStores env cfg offset w1")
  obtain r3 w3 evs3 where t: "TargetedImageCollector_stores g env cfg offset stores w2 = (r3, w3, evs3)"
    by (cases "TargetedImageCollector_stores g env cfg offset stores w2")
  have q: "list_all (\<lambda>e. event_offset e \<in> {None, Some offset}) (map Queue specs)"
    by (simp add: list_all_iff)
  note c = assms(1)[unfolded TargetedImageCollector_Collect_def Let_def, folded off, unfolded gp]
  show ?thesis
  proof (cases "self_vss cfg")
    case True
    with c g t have "evs = TSKFileCollector (self_image cfg) offset # map Queue specs @
        [Log DEBUG ''Searching for VSS'' []] @ evs2 @ evs3 @ [Log DEBUG ''Targeted Image Collector - Done.'' []]"
      by auto
    with q GetVssStores_offsets[OF g] Targeted_stores_offsets[OF t] show ?thesis
      by simp
  next
    case False
    with c have "evs = TSKFileCollector (self_image cfg) offset # map Queue specs @
        [Log DEBUG ''Targeted Image Collector - Done.'' []]"
      by auto
    with q show ?thesis by simp
  qed
qed

text \<open>
  Claim C9. The offset \<open>Collect\<close> works with is the configured byte offset when one is
  given (a value other than zero), and the configured sector offset times the sector size
  of 512 otherwise. It is the offset of every call that opens a volume or a snapshot
  store, counts the stores or runs a targeted search, in \<open>SimpleImageCollector.Collect\<close>
  and in \<open>TargetedImageCollector.Collect\<close>, and the offset every descriptor of a walk
  carries; the volume is opened at it in every run.
\<close>

theorem effective_offset:
  assumes "offset = (if self_offset_bytes cfg \<noteq> 0 then self_offset_bytes cfg
                     else self_offset cfg * 512)"
  shows "SECTOR_SIZE = 512 \<and>
         (SimpleImageCollector_Collect g depth env cfg s = Some (r, s', evs) \<longrightarrow>
            FsOpen (self_image cfg) offset no_store \<in> set evs \<and>
            (\<forall>e\<in>set evs. event_offset e = None \<or> event_offset e = Some offset) \<and>
            (\<forall>p\<in>set (queued evs). image_offset p = Some offset)) \<and>
         (TargetedImageCollector_Collect g env cfg t = Some (r', t', evs') \<longrightarrow>
            TSKFileCollector (self_image cfg) offset \<in> set evs' \<and>
            (\<forall>e\<in>set evs'. event_offset e = None \<or> event_offset e = Some offset))"
proof -
  have off: "offset = py_or (self_offset_bytes cfg) (self_offset cfg * SECTOR_SIZE)"
    using assms by (simp add: py_or_offset)
  have 1: "SECTOR_SIZE = 512"
    by (simp add: SECTOR_SIZE_def)
  have 2: "SimpleImageCollector_Collect g depth env cfg s = Some (r, s', evs) \<longrightarrow>
            FsOpen (self_image cfg) offset no_store \<in> set evs \<and>
            (\<forall>e\<in>set evs. event_offset e = None \<or> event_offset e = Some offset) \<and>
            (\<forall>p\<in>set (queued evs). image_offset p = Some offset)"
    using Simple_Collect_offsets[OF _ off, of g depth env s r s' evs]
    by (simp add: list_all_iff)
  have 3: "TargetedImageCollector_Collect g env cfg t = Some (r', t', evs') \<longrightarrow>
            TSKFileCollector (self_image cfg) offset \<in> set evs' \<and>
            (\<forall>e\<in>set evs'. event_offset e = None \<or> event_offset e = Some offset)"
    using Targeted_Collect_offsets[OF _ off, of g env t r' t' evs']
    by (simp add: list_all_iff)
  from 1 2 3 show ?thesis
    by (intro conjI)
qed

lemma demo_Targeted_bytes:
  "TargetedImageCollector_Collect module_globals demo_env (demo_cfg\<lparr>self_offset_bytes := 1000\<rparr>)
     demo_state =
     Some (Inr (), demo_state,
       [TSKFileCollector ''img'' 1000, Log DEBUG ''Targeted Image Collector - Done.'' []])"
  by (simp add: Targeted_Collect_eq py_or_def demo_state_def)

theorem effective_offset_witness:
  "(\<exists>s' evs.
      SimpleImageCollector_Collect module_globals 3 demo_env demo_cfg demo_state
        = Some (Inr (), s', evs) \<and>
      self_offset_bytes demo_cfg = 0 \<and> self_offset demo_cfg = 63 \<and>
      FsOpen ''img'' 32256 no_store \<in> set evs \<and>
      list_all (\<lambda>e. event_offset e = None \<or> event_offset e = Some 32256) evs \<and>
      list_all (\<lambda>p. image_offset p = Some 32256) (queued evs) \<and> length (queued evs) = 3) \<and>
   (\<exists>t' evs.
      TargetedImageCollector_Collect module_globals demo_env (demo_cfg\<lparr>self_offset_bytes := 1000\<rparr>)
        demo_state = Some (Inr (), t', evs) \<and>
      TSKFileCollector ''img'' 1000 \<in> set evs \<and>
      list_all (\<lambda>e. event_offset e = None \<or> event_offset e = Some 1000) evs)"
proof -
  have o1: "32256 = (if self_offset_bytes demo_cfg \<noteq> 0 then self_offset_bytes demo_cfg
                     else self_offset demo_cfg * 512)"
    by simp
  have o2: "1000 = (if self_offset_bytes (demo_cfg\<lparr>self_offset_bytes := 1000\<rparr>) \<noteq> 0
                    then self_offset_bytes (demo_cfg\<lparr>self_offset_bytes := 1000\<rparr>)
                    else self_offset (demo_cfg\<lparr>self_offset_bytes := 1000\<rparr>) * 512)"
    by simp
  from effective_offset[OF o1, THEN conjunct2, THEN conjunct1, rule_format, OF demo_Collect_plain]
  have 1: "\<exists>s' evs.
      SimpleImageCollector_Collect module_globals 3 demo_env demo_cfg demo_state
        = Some (Inr (), s', evs) \<and>
      self_offset_bytes demo_cfg = 0 \<and> self_offset demo_cfg = 63 \<and>
      FsOpen ''img'' 32256 no_store \<in> set evs \<and>
      list_all (\<lambda>e. event_offset e = None \<or> event_offset e = Some 32256) evs \<and>
      list_all (\<lambda>p. image_offset p = Some 32256) (queued evs) \<and> length (queued evs) = 3"
    unfolding demo_Collect_plain by (simp add: list_all_iff)
  from effective_offset[OF o2, THEN conjunct2, THEN conjunct2, rule_format, OF demo_Targeted_bytes]
  have 2: "\<exists>t' evs.
      TargetedImageCollector_Collect module_globals demo_env (demo_cfg\<lparr>self_offset_bytes := 1000\<rparr>)
        demo_state = Some (Inr (), t', evs) \<and>
      TSKFileCollector ''img'' 1000 \<in> set evs \<and>
      list_all (\<lambda>e. event_offset e = None \<or> event_offset e = Some 1000) evs"
    unfolding demo_Targeted_bytes by (simp add: list_all_iff)
  from 1 2 show ?thesis
    by (rule conjI)
qed

section \<open>The deduplication table\<close>

lemma entries_Cons_regular:
  assumes "try_block f ns = (TryOk n a TSK_FS_META_TYPE_REG m, ns')"
    and "n \<notin> set [''$OrphanFiles'', ''.'', ''..'']"
  shows "ParseImageDir_entries env cfg fs path (f # rest) ns ds s =
     (if self_vss cfg then
        (if in_hashlist (hashlist s) a (CalculateNTFSTimeHash env m) then
           ParseImageDir_entries env cfg fs path rest ns' ds s
         else
           emit [Queue (transfer_proto env fs path n a)]
             (ParseImageDir_entries env cfg fs path rest ns' ds
                (s\<lparr>hashlist := setdefault_append (hashlist s) a (CalculateNTFSTimeHash env m)\<rparr>)))
      else
        emit [Queue (transfer_proto env fs path n a)]
          (ParseImageDir_entries env cfg fs path rest ns' ds s))"
  using assms by (simp add: Let_def)

lemma in_hashlist_setdefault_append:
  "in_hashlist (setdefault_append h a x) b y \<longleftrightarrow> in_hashlist h b y \<or> (b = a \<and> y = x)"
  by (auto simp: in_hashlist_def setdefault_append_def split: option.splits)

lemma entries_hashlist_mono:
  "ParseImageDir_entries env cfg fs path es ns ds s = (r, s', evs) \<Longrightarrow>
   in_hashlist (hashlist s) a h \<Longrightarrow> in_hashlist (hashlist s') a h"
proof (induction es arbitrary: ns ds s r s' evs)
  case Nil
  then show ?case by simp
next
  case (Cons f es)
  then show ?case
    by (auto simp: Let_def emit_eq_iff in_hashlist_setdefault_append
        split: prod.splits try_result.splits option.splits if_splits)
qed

lemma entries_plain_state:
  "\<not> self_vss cfg \<Longrightarrow> ParseImageDir_entries env cfg fs path es ns ds s = (r, s', evs) \<Longrightarrow> s' = s"
proof (induction es arbitrary: ns ds s r s' evs)
  case Nil
  then show ?case by simp
next
  case (Cons f es)
  then show ?case
    by (auto simp: Let_def emit_eq_iff split: prod.splits try_result.splits option.splits if_splits)
qed

lemma ParseImageDir_Suc_cases:
  assumes "ParseImageDir (Suc depth) env cfg fs i path retry s = Some (r, s', evs)"
  obtains
    (reopened) w evs' where "open_dir env fs i (world s) = (None, w)" "\<not> retry"
      "ParseImageDir depth env cfg fs i path True (s\<lparr>world := w\<rparr>) = Some (r, s', evs')"
      "evs = [Log ERROR ''IOError while trying to open a directory: %s [%d]'' [path, str_int i],
              Log INFO ''Reopening directory due to an IOError: %s'' [path]] @ evs'"
  | (abandoned) w where "open_dir env fs i (world s) = (None, w)" "retry"
      "r = Inr ()" "s' = s\<lparr>world := w\<rparr>"
      "evs = [Log ERROR ''IOError while trying to open a directory: %s [%d]'' [path, str_int i]]"
  | (raised) directory w e where "open_dir env fs i (world s) = (Some directory, w)"
      "ParseImageDir_entries env cfg fs path directory None [] (s\<lparr>world := w\<rparr>) = (Inl e, s', evs)"
      "r = Inl e"
  | (walked) directory w directories s1 evs1 evs2 where
      "open_dir env fs i (world s) = (Some directory, w)"
      "ParseImageDir_entries env cfg fs path directory None [] (s\<lparr>world := w\<rparr>)
         = (Inr directories, s1, evs1)"
      "ParseImageDir_subdirs depth env cfg fs directories s1 = Some (r, s', evs2)"
      "evs = evs1 @ evs2"
proof -
  obtain d w where o: "open_dir env fs i (world s) = (d, w)"
    by (cases "open_dir env fs i (world s)")
  show thesis
  proof (cases d)
    case None
    show thesis
    proof (cases retry)
      case True
      with assms o None show thesis
        by (intro abandoned[of w]) simp_all
    next
      case False
      with assms o None obtain evs' where
        "ParseImageDir depth env cfg fs i path True (s\<lparr>world := w\<rparr>) = Some (r, s', evs')"
        "evs = [Log ERROR ''IOError while trying to open a directory: %s [%d]'' [path, str_int i],
              Log INFO ''Reopening directory due to an IOError: %s'' [path]] @ evs'"
        by (auto simp: emit_opt_eq_Some)
      with o None False show thesis
        by (intro reopened[of w evs']) simp_all
    qed
  next
    case (Some directory)
    obtain x s1 evs1 where e:
      "ParseImageDir_entries env cfg fs path directory None [] (s\<lparr>world := w\<rparr>) = (x, s1, evs1)"
      by (cases "ParseImageDir_entries env cfg fs path directory None [] (s\<lparr>world := w\<rparr>)")
    show thesis
    proof (cases x)
      case (Inl ex)
      with assms o Some e show thesis
        by (intro raised[of directory w ex]) simp_all
    next
      case (Inr directories)
      with assms o Some e obtain evs2 where
        "ParseImageDir_subdirs depth env cfg fs directories s1 = Some (r, s', evs2)"
        "evs = evs1 @ evs2"
        by (auto simp: emit_opt_eq_Some)
      with o Some e Inr show thesis
        by (intro walked[of directory w directories s1 evs1 evs2]) simp_all
    qed
  qed
qed

lemma ParseImageDir_subdirs_Cons_cases:
  assumes "ParseImageDir_subdirs depth env cfg fs ((i, p) # rest) s = Some (r, s', evs)"
  obtains
    (raised) e where "ParseImageDir depth env cfg fs i p False s = Some (Inl e, s', evs)" "r = Inl e"
  | (continued) s1 evs1 evs2 where "ParseImageDir depth env cfg fs i p False s = Some (Inr (), s1, evs1)"
      "ParseImageDir_subdirs depth env cfg fs rest s1 = Some (r, s', evs2)" "evs = evs1 @ evs2"
proof -
  from assms obtain x s1 evs1 where
    w: "ParseImageDir depth env cfg fs i p False s = Some (x, s1, evs1)"
    by (cases "ParseImageDir depth env cfg fs i p False s") auto
  show thesis
  proof (cases x)
    case (Inl e)
    with assms w show thesis
      by (intro raised[of e]) simp_all
  next
    case (Inr u)
    with assms w obtain evs2 where
      "ParseImageDir_subdirs depth env cfg fs rest s1 = Some (r, s', evs2)" "evs = evs1 @ evs2"
      by (auto simp: emit_opt_eq_Some)
    with w Inr show thesis
      by (intro continued[of s1 evs1 evs2]) simp_all
  qed
qed

lemma ParseImageDir_hashlist_mono:
  "(ParseImageDir depth env cfg fs i path retry s = Some (r, s', evs) \<longrightarrow>
      in_hashlist (hashlist s) a h \<longrightarrow> in_hashlist (hashlist s') a h)"
  "(ParseImageDir_subdirs depth env cfg fs ds s = Some (r, s', evs) \<longrightarrow>
      in_hashlist (hashlist s) a h \<longrightarrow> in_hashlist (hashlist s') a h)"
proof (induction depth env cfg fs i path retry s and depth env cfg fs ds s arbitrary: r s' evs and r s' evs
    rule: ParseImageDir_ParseImageDir_subdirs.induct)
  case (1 env cfg fs cur_inode path retry s)
  then show ?case by simp
next
  case (2 depth env cfg fs cur_inode path retry s)
  show ?case
  proof (intro impI)
    assume run: "ParseImageDir (Suc depth) env cfg fs cur_inode path retry s = Some (r, s', evs)"
      and h: "in_hashlist (hashlist s) a h"
    from run show "in_hashlist (hashlist s') a h"
    proof (cases rule: ParseImageDir_Suc_cases)
      case (reopened w evs')
      from "2.IH"(1)[OF reopened(1)[symmetric] refl reopened(2), rule_format, OF reopened(3)] h
      show ?thesis by simp
    next
      case (abandoned w)
      with h show ?thesis by simp
    next
      case (raised directory w e)
      from entries_hashlist_mono[OF raised(2), of a h] h show ?thesis by simp
    next
      case (walked directory w directories s1 evs1 evs2)
      from entries_hashlist_mono[OF walked(2), of a h] h have "in_hashlist (hashlist s1) a h"
        by simp
      with "2.IH"(2)[OF walked(1)[symmetric] refl walked(2)[symmetric] refl refl, rule_format, OF walked(3)]
      show ?thesis by simp
    qed
  qed
next
  case (3 depth env cfg fs s)
  then show ?case by simp
next
  case (4 depth env cfg fs inode_addr path rest s)
  show ?case
  proof (intro impI)
    assume run: "ParseImageDir_subdirs depth env cfg fs ((inode_addr, path) # rest) s = Some (r, s', evs)"
      and h: "in_hashlist (hashlist s) a h"
    from run show "in_hashlist (hashlist s') a h"
    proof (cases rule: ParseImageDir_subdirs_Cons_cases)
      case (raised e)
      from "4.IH"(1)[rule_format, OF raised(1) h] show ?thesis .
    next
      case (continued s1 evs1 evs2)
      from "4.IH"(1)[rule_format, OF continued(1) h] have "in_hashlist (hashlist s1) a h" .
      with "4.IH"(2)[OF continued(1) refl refl refl, rule_format, OF continued(2)]
      show ?thesis by simp
    qed
  qed
qed

lemma ParseImageDir_plain_hashlist:
  "(ParseImageDir depth env cfg fs i path retry s = Some (r, s', evs) \<longrightarrow>
      \<not> self_vss cfg \<longrightarrow> hashlist s' = hashlist s)"
  "(ParseImageDir_subdirs depth env cfg fs ds s = Some (r, s', evs) \<longrightarrow>
      \<not> self_vss cfg \<longrightarrow> hashlist s' = hashlist s)"
proof (induction depth env cfg fs i path retry s and depth env cfg fs ds s arbitrary: r s' evs and r s' evs
    rule: ParseImageDir_ParseImageDir_subdirs.induct)
  case (1 env cfg fs cur_inode path retry s)
  then show ?case by simp
next
  case (2 depth env cfg fs cur_inode path retry s)
  show ?case
  proof (intro impI)
    assume run: "ParseImageDir (Suc depth) env cfg fs cur_inode path retry s = Some (r, s', evs)"
      and h: "\<not> self_vss cfg"
    from run show "hashlist s' = hashlist s"
    proof (cases rule: ParseImageDir_Suc_cases)
      case (reopened w evs')
      from "2.IH"(1)[OF reopened(1)[symmetric] refl reopened(2), rule_format, OF reopened(3) h]
      show ?thesis by simp
    next
      case (abandoned w)
      then show ?thesis by simp
    next
      case (raised directory w e)
      from entries_plain_state[OF h raised(2)] show ?thesis by simp
    next
      case (walked directory w directories s1 evs1 evs2)
      from entries_plain_state[OF h walked(2)] have "hashlist s1 = hashlist s"
        by simp
      with "2.IH"(2)[OF walked(1)[symmetric] refl walked(2)[symmetric] refl refl, rule_format, OF walked(3) h]
      show ?thesis by simp
    qed
  qed
next
  case (3 depth env cfg fs s)
  then show ?case by simp
next
  case (4 depth env cfg fs inode_addr path rest s)
  show ?case
  proof (intro impI)
    assume run: "ParseImageDir_subdirs depth env cfg fs ((inode_addr, path) # rest) s = Some (r, s', evs)"
      and h: "\<not> self_vss cfg"
    from run show "hashlist s' = hashlist s"
    proof (cases rule: ParseImageDir_subdirs_Cons_cases)
      case (raised e)
      from "4.IH"(1)[rule_format, OF raised(1) h] show ?thesis .
    next
      case (continued s1 evs1 evs2)
      from "4.IH"(1)[rule_format, OF continued(1) h] have "hashlist s1 = hashlist s" .
      with "4.IH"(2)[OF continued(1) refl refl refl, rule_format, OF continued(2) h]
      show ?thesis by simp
    qed
  qed
qed

text \<open>
  Claim C3. In snapshot mode (\<open>parse_vss\<close> set), a regular file whose fingerprint is
  already in the table under its inode is skipped: the loop goes on with the next entry,
  with nothing put on the queue and the table as it was. Otherwise the fingerprint is
  appended to the list the table holds under the inode (a new list when there is none) and
  the descriptor is put on the queue. The fingerprint is the MD5 digest of the labelled
  decimal representations, one after the other, of the eight fields of the four
  timestamp pairs (access, creation, modification, change, each with its nanoseconds), an
  absent field counting as 0; metadata that agree on these eight fields have the same
  fingerprint.
\<close>

theorem snapshot_dedup_by_fingerprint:
  assumes vss: "self_vss cfg"
    and f: "try_block f name_str = (TryOk n inode_addr TSK_FS_META_TYPE_REG meta, name_str')"
    and n: "n \<notin> set [''$OrphanFiles'', ''.'', ''..'']"
  shows
   "(in_hashlist (hashlist s) inode_addr (CalculateNTFSTimeHash env meta) \<longrightarrow>
       ParseImageDir_entries env cfg fs path (f # rest) name_str directories s =
       ParseImageDir_entries env cfg fs path rest name_str' directories s) \<and>
    (\<not> in_hashlist (hashlist s) inode_addr (CalculateNTFSTimeHash env meta) \<longrightarrow>
       ParseImageDir_entries env cfg fs path (f # rest) name_str directories s =
       emit [Queue (transfer_proto env fs path n inode_addr)]
         (ParseImageDir_entries env cfg fs path rest name_str' directories
            (s\<lparr>hashlist := (hashlist s)(inode_addr \<mapsto>
                  (case hashlist s inode_addr of None \<Rightarrow> [] | Some hs \<Rightarrow> hs)
                  @ [CalculateNTFSTimeHash env meta])\<rparr>))) \<and>
    (in_hashlist (hashlist s) inode_addr (CalculateNTFSTimeHash env meta) \<longleftrightarrow>
       (\<exists>hs. hashlist s inode_addr = Some hs \<and> CalculateNTFSTimeHash env meta \<in> set hs)) \<and>
    CalculateNTFSTimeHash env meta =
      md5_hexdigest env
        (''atime:'' @ str_int (case atime meta of None \<Rightarrow> 0 | Some t \<Rightarrow> t) @ ''.''
           @ str_int (case atime_nano meta of None \<Rightarrow> 0 | Some t \<Rightarrow> t)
         @ ''crtime:'' @ str_int (case crtime meta of None \<Rightarrow> 0 | Some t \<Rightarrow> t) @ ''.''
           @ str_int (case crtime_nano meta of None \<Rightarrow> 0 | Some t \<Rightarrow> t)
         @ ''mtime:'' @ str_int (case mtime meta of None \<Rightarrow> 0 | Some t \<Rightarrow> t) @ ''.''
           @ str_int (case mtime_nano meta of None \<Rightarrow> 0 | Some t \<Rightarrow> t)
         @ ''ctime:'' @ str_int (case ctime meta of None \<Rightarrow> 0 | Some t \<Rightarrow> t) @ ''.''
           @ str_int (case ctime_nano meta of None \<Rightarrow> 0 | Some t \<Rightarrow> t)) \<and>
    (\<forall>meta'.
       getattr (atime meta') 0 = getattr (atime meta) 0 \<and>
       getattr (atime_nano meta') 0 = getattr (atime_nano meta) 0 \<and>
       getattr (crtime meta') 0 = getattr (crtime meta) 0 \<and>
       getattr (crtime_nano meta') 0 = getattr (crtime_nano meta) 0 \<and>
       getattr (mtime meta') 0 = getattr (mtime meta) 0 \<and>
       getattr (mtime_nano meta') 0 = getattr (mtime_nano meta) 0 \<and>
       getattr (ctime meta') 0 = getattr (ctime meta) 0 \<and>
       getattr (ctime_nano meta') 0 = getattr (ctime_nano meta) 0 \<longrightarrow>
       CalculateNTFSTimeHash env meta' = CalculateNTFSTimeHash env meta)"
proof -
  note eq = entries_Cons_regular[OF f n, of env cfg fs path rest directories s]
  have 1: "in_hashlist (hashlist s) inode_addr (CalculateNTFSTimeHash env meta) \<longrightarrow>
       ParseImageDir_entries env cfg fs path (f # rest) name_str directories s =
       ParseImageDir_entries env cfg fs path rest name_str' directories s"
    using vss by (simp only: eq if_True) simp
  have 2: "\<not> in_hashlist (hashlist s) inode_addr (CalculateNTFSTimeHash env meta) \<longrightarrow>
       ParseImageDir_entries env cfg fs path (f # rest) name_str directories s =
       emit [Queue (transfer_proto env fs path n inode_addr)]
         (ParseImageDir_entries env cfg fs path rest name_str' directories
            (s\<lparr>hashlist := (hashlist s)(inode_addr \<mapsto>
                  (case hashlist s inode_addr of None \<Rightarrow> [] | Some hs \<Rightarrow> hs)
                  @ [CalculateNTFSTimeHash env meta])\<rparr>))"
    using vss by (simp only: eq if_True setdefault_append_def) simp
  have 3: "in_hashlist (hashlist s) inode_addr (CalculateNTFSTimeHash env meta) \<longleftrightarrow>
       (\<exists>hs. hashlist s inode_addr = Some hs \<and> CalculateNTFSTimeHash env meta \<in> set hs)"
    by (simp add: in_hashlist_def split: option.splits)
  have 4: "CalculateNTFSTimeHash env meta =
      md5_hexdigest env
        (''atime:'' @ str_int (case atime meta of None \<Rightarrow> 0 | Some t \<Rightarrow> t) @ ''.''
           @ str_int (case atime_nano meta of None \<Rightarrow> 0 | Some t \<Rightarrow> t)
         @ ''crtime:'' @ str_int (case crtime meta of None \<Rightarrow> 0 | Some t \<Rightarrow> t) @ ''.''
           @ str_int (case crtime_nano meta of None \<Rightarrow> 0 | Some t \<Rightarrow> t)
         @ ''mtime:'' @ str_int (case mtime meta of None \<Rightarrow> 0 | Some t \<Rightarrow> t) @ ''.''
           @ str_int (case mtime_nano meta of None \<Rightarrow> 0 | Some t \<Rightarrow> t)
         @ ''ctime:'' @ str_int (case ctime meta of None \<Rightarrow> 0 | Some t \<Rightarrow> t) @ ''.''
           @ str_int (case ctime_nano meta of None \<Rightarrow> 0 | Some t \<Rightarrow> t))"
    unfolding CalculateNTFSTimeHash_def getattr_def by simp
  have 5: "\<forall>meta'.
       getattr (atime meta') 0 = getattr (atime meta) 0 \<and>
       getattr (atime_nano meta') 0 = getattr (atime_nano meta) 0 \<and>
       getattr (crtime meta') 0 = getattr (crtime meta) 0 \<and>
       getattr (crtime_nano meta') 0 = getattr (crtime_nano meta) 0 \<and>
       getattr (mtime meta') 0 = getattr (mtime meta) 0 \<and>
       getattr (mtime_nano meta') 0 = getattr (mtime_nano meta) 0 \<and>
       getattr (ctime meta') 0 = getattr (ctime meta) 0 \<and>
       getattr (ctime_nano meta') 0 = getattr (ctime_nano meta) 0 \<longrightarrow>
       CalculateNTFSTimeHash env meta' = CalculateNTFSTimeHash env meta"
    unfolding CalculateNTFSTimeHash_def by simp
  from 1 2 3 4 5 show ?thesis
    by (intro conjI)
qed

lemma demo_fingerprint:
  "CalculateNTFSTimeHash demo_env (entry_meta a t 7) = ''atime:1.0crtime:2.0mtime:7.5ctime:0.0''"
  by (simp add: CalculateNTFSTimeHash_def entry_meta_def getattr_def str_int_def dec_nat.simps)

theorem snapshot_dedup_by_fingerprint_witness:
  "ParseImageDir_entries demo_env (demo_cfg\<lparr>self_vss := True\<rparr>) demo_fs ''/''
     [entry ''a'' 5 TSK_FS_META_TYPE_REG 7, entry ''b'' 5 TSK_FS_META_TYPE_REG 7] None []
     \<lparr>hashlist = Map.empty, world = 0\<rparr> =
     (Inr [],
      \<lparr>hashlist = [5 \<mapsto> [''atime:1.0crtime:2.0mtime:7.5ctime:0.0'']], world = 0\<rparr>,
      [Queue (transfer_proto demo_env demo_fs ''/'' ''a'' 5)]) \<and>
   CalculateNTFSTimeHash demo_env (entry_meta 5 TSK_FS_META_TYPE_REG 7)
     = ''atime:1.0crtime:2.0mtime:7.5ctime:0.0'' \<and>
   CalculateNTFSTimeHash demo_env (entry_meta 9 TSK_FS_META_TYPE_DIR 7)
     = CalculateNTFSTimeHash demo_env (entry_meta 5 TSK_FS_META_TYPE_REG 7)"
proof -
  let ?cfg = "demo_cfg\<lparr>self_vss := True\<rparr>"
  let ?h = "''atime:1.0crtime:2.0mtime:7.5ctime:0.0''"
  let ?s1 = "\<lparr>hashlist = [5 \<mapsto> [?h]], world = 0::nat\<rparr>"
  have vss: "self_vss ?cfg"
    by simp
  have fa: "try_block (entry ''a'' 5 TSK_FS_META_TYPE_REG 7) None =
      (TryOk ''a'' 5 TSK_FS_META_TYPE_REG (entry_meta 5 TSK_FS_META_TYPE_REG 7), Some ''a'')"
    by simp
  have fb: "try_block (entry ''b'' 5 TSK_FS_META_TYPE_REG 7) (Some ''a'') =
      (TryOk ''b'' 5 TSK_FS_META_TYPE_REG (entry_meta 5 TSK_FS_META_TYPE_REG 7), Some ''b'')"
    by simp
  have na: "''a'' \<notin> set [''$OrphanFiles'', ''.'', ''..'']"
    by simp
  have nb: "''b'' \<notin> set [''$OrphanFiles'', ''.'', ''..'']"
    by simp
  note a = snapshot_dedup_by_fingerprint[OF vss fa na,
      where s = "\<lparr>hashlist = Map.empty, world = 0::nat\<rparr>" and env = demo_env and fs = demo_fs
        and path = "''/''" and rest = "[entry ''b'' 5 TSK_FS_META_TYPE_REG 7]" and directories = "[]"]
  note b = snapshot_dedup_by_fingerprint[OF vss fb nb,
      where s = ?s1 and env = demo_env and fs = demo_fs
        and path = "''/''" and rest = "[]" and directories = "[]"]
  have new: "\<not> in_hashlist (hashlist \<lparr>hashlist = Map.empty, world = 0::nat\<rparr>) 5
      (CalculateNTFSTimeHash demo_env (entry_meta 5 TSK_FS_META_TYPE_REG 7))"
    by (simp add: in_hashlist_def)
  have old: "in_hashlist (hashlist ?s1) 5
      (CalculateNTFSTimeHash demo_env (entry_meta 5 TSK_FS_META_TYPE_REG 7))"
    by (simp add: in_hashlist_def demo_fingerprint)
  from a[THEN conjunct2, THEN conjunct1, rule_format, OF new]
    b[THEN conjunct1, rule_format, OF old]
  have 1: "ParseImageDir_entries demo_env ?cfg demo_fs ''/''
     [entry ''a'' 5 TSK_FS_META_TYPE_REG 7, entry ''b'' 5 TSK_FS_META_TYPE_REG 7] None []
     \<lparr>hashlist = Map.empty, world = 0\<rparr> =
     (Inr [], ?s1, [Queue (transfer_proto demo_env demo_fs ''/'' ''a'' 5)])"
    by (simp add: demo_fingerprint)
  from a[THEN conjunct2, THEN conjunct2, THEN conjunct2, THEN conjunct2, rule_format,
      of "entry_meta 9 TSK_FS_META_TYPE_DIR 7"]
  have 3: "CalculateNTFSTimeHash demo_env (entry_meta 9 TSK_FS_META_TYPE_DIR 7)
     = CalculateNTFSTimeHash demo_env (entry_meta 5 TSK_FS_META_TYPE_REG 7)"
    by (simp add: entry_meta_def)
  from 1 demo_fingerprint[of 5 TSK_FS_META_TYPE_REG] 3 show ?thesis
    by (intro conjI)
qed

section \<open>Two names of one inode\<close>

lemma emit_emit: "emit xs (emit ys r) = emit (xs @ ys) r"
  by (cases r) simp

lemma try_block_TryOk:
  "try_block f ns = (TryOk n a t m, ns') \<Longrightarrow> try_block f ns0 = (TryOk n a t m, Some n)"
  by (auto simp: try_block_def split: attr.splits option.splits if_splits)

lemma entries_append:
  "ParseImageDir_entries env cfg fs path es1 ns ds s = (Inr ds', s', evs) \<Longrightarrow>
   \<exists>ns'. ParseImageDir_entries env cfg fs path (es1 @ es2) ns ds s =
         emit evs (ParseImageDir_entries env cfg fs path es2 ns' ds' s')"
proof (induction es1 arbitrary: ns ds s evs)
  case Nil
  then show ?case
    by (auto simp: emit_def intro!: exI[of _ ns])
next
  case (Cons f es1)
  obtain t ns1 where tb: "try_block f ns = (t, ns1)"
    by (cases "try_block f ns")
  show ?case
  proof (cases t)
    case TryContinue
    with Cons.prems tb have "ParseImageDir_entries env cfg fs path es1 ns1 ds s = (Inr ds', s', evs)"
      by simp
    from Cons.IH[OF this] tb TryContinue show ?thesis
      by simp
  next
    case (TryAttributeError e)
    show ?thesis
    proof (cases ns1)
      case None
      with Cons.prems tb TryAttributeError show ?thesis by simp
    next
      case (Some n)
      with Cons.prems tb TryAttributeError obtain evs' where
        r: "ParseImageDir_entries env cfg fs path es1 ns1 ds s = (Inr ds', s', evs')"
        and e: "evs = [Log ERROR ''[ParseImage] Problem reading file [%s], error: %s'' [n, e]] @ evs'"
        by (auto simp: emit_eq_iff)
      from Cons.IH[OF r] tb TryAttributeError Some show ?thesis
        unfolding e by (auto simp: emit_emit)
    qed
  next
    case (TryOk n a ft m)
    note ok = tb[unfolded TryOk]
    show ?thesis
    proof (cases "n \<in> set [''$OrphanFiles'', ''.'', ''..'']")
      case True
      with Cons.prems ok have "ParseImageDir_entries env cfg fs path es1 ns1 ds s = (Inr ds', s', evs)"
        by simp
      from Cons.IH[OF this] ok True show ?thesis
        by simp
    next
      case False
      note nskip = this
      show ?thesis
      proof (cases ft)
        case TSK_FS_META_TYPE_DIR
        with Cons.prems ok nskip have
          "ParseImageDir_entries env cfg fs path es1 ns1 (ds @ [(a, os_path_join path n)]) s = (Inr ds', s', evs)"
          by simp
        from Cons.IH[OF this] ok nskip TSK_FS_META_TYPE_DIR show ?thesis
          by simp
      next
        case TSK_FS_META_TYPE_REG
        note eq = entries_Cons_regular[OF ok[unfolded TSK_FS_META_TYPE_REG] nskip, of env cfg fs path _ ds s]
        show ?thesis
        proof (cases "self_vss cfg \<and> in_hashlist (hashlist s) a (CalculateNTFSTimeHash env m)")
          case True
          with Cons.prems eq[of es1] have "ParseImageDir_entries env cfg fs path es1 ns1 ds s = (Inr ds', s', evs)"
            by simp
          from Cons.IH[OF this] eq[of "es1 @ es2"] True show ?thesis
            by simp
        next
          case False
          define s1 where "s1 = (if self_vss cfg
              then s\<lparr>hashlist := setdefault_append (hashlist s) a (CalculateNTFSTimeHash env m)\<rparr> else s)"
          from False eq have eq': "ParseImageDir_entries env cfg fs path (f # rest) ns ds s =
              emit [Queue (transfer_proto env fs path n a)]
                (ParseImageDir_entries env cfg fs path rest ns1 ds s1)" for rest
            by (auto simp: s1_def)
          from Cons.prems[unfolded eq'] obtain evs' where
            r: "ParseImageDir_entries env cfg fs path es1 ns1 ds s1 = (Inr ds', s', evs')"
            and e: "evs = [Queue (transfer_proto env fs path n a)] @ evs'"
            by (auto simp: emit_eq_iff)
          from Cons.IH[OF r] eq'[of "es1 @ es2"] show ?thesis
            unfolding e by (auto simp: emit_emit)
        qed
      next
        case TSK_FS_META_TYPE_LNK
        with Cons.prems ok nskip have "ParseImageDir_entries env cfg fs path es1 ns1 ds s = (Inr ds', s', evs)"
          by simp
        from Cons.IH[OF this] ok nskip TSK_FS_META_TYPE_LNK show ?thesis
          by simp
      next
        case TSK_FS_META_TYPE_UNDEF
        with Cons.prems ok nskip have "ParseImageDir_entries env cfg fs path es1 ns1 ds s = (Inr ds', s', evs)"
          by simp
        from Cons.IH[OF this] ok nskip TSK_FS_META_TYPE_UNDEF show ?thesis
          by simp
      qed
    qed
  qed
qed

text \<open>
  Claim C10. The table is looked up by the inode address and the fingerprint; the name and
  the path of an entry play no part. Take a directory that lists two regular files \<open>f1\<close>
  and, further on, \<open>f2\<close> of the same inode and the same fingerprint, not yet in the table,
  whatever their names. In snapshot mode the first is put on the queue and the second adds
  nothing to what the entries between them produce; with snapshot mode off the descriptor
  of the second follows them on the queue as well. In snapshot mode the second is skipped
  in whatever directory or volume it turns up once the fingerprint is in the table, and a
  fingerprint in the table stays there through every walk.
\<close>

theorem dedup_keyed_by_inode:
  assumes f1: "try_block f1 ns = (TryOk n1 a TSK_FS_META_TYPE_REG m1, ns1)"
    and f2: "try_block f2 ns0 = (TryOk n2 a TSK_FS_META_TYPE_REG m2, ns2)"
    and n1: "n1 \<notin> set [''$OrphanFiles'', ''.'', ''..'']"
    and n2: "n2 \<notin> set [''$OrphanFiles'', ''.'', ''..'']"
    and fp: "CalculateNTFSTimeHash env m2 = CalculateNTFSTimeHash env m1"
    and new: "\<not> in_hashlist (hashlist s) a (CalculateNTFSTimeHash env m1)"
    and mid: "ParseImageDir_entries env cfg fs path mid ns1 ds
                (if self_vss cfg
                 then s\<lparr>hashlist := setdefault_append (hashlist s) a (CalculateNTFSTimeHash env m1)\<rparr>
                 else s) = (Inr ds2, s2, evs_mid)"
  shows
   "(self_vss cfg \<longrightarrow>
       ParseImageDir_entries env cfg fs path (f1 # mid @ f2 # rest) ns ds s =
         emit (Queue (transfer_proto env fs path n1 a) # evs_mid)
           (ParseImageDir_entries env cfg fs path rest (Some n2) ds2 s2)) \<and>
    (\<not> self_vss cfg \<longrightarrow>
       ParseImageDir_entries env cfg fs path (f1 # mid @ f2 # rest) ns ds s =
         emit (Queue (transfer_proto env fs path n1 a) # evs_mid
               @ [Queue (transfer_proto env fs path n2 a)])
           (ParseImageDir_entries env cfg fs path rest (Some n2) ds2 s2)) \<and>
    (self_vss cfg \<longrightarrow>
       (\<forall>fs' path' rest' ns' ds' t.
          in_hashlist (hashlist t) a (CalculateNTFSTimeHash env m1) \<longrightarrow>
          ParseImageDir_entries env cfg fs' path' (f2 # rest') ns' ds' t =
          ParseImageDir_entries env cfg fs' path' rest' (Some n2) ds' t)) \<and>
    (\<forall>depth fs' i path' retry t r t' evs.
       in_hashlist (hashlist t) a (CalculateNTFSTimeHash env m1) \<and>
       ParseImageDir depth env cfg fs' i path' retry t = Some (r, t', evs) \<longrightarrow>
       in_hashlist (hashlist t') a (CalculateNTFSTimeHash env m1))"
proof -
  let ?h = "CalculateNTFSTimeHash env m1"
  let ?s1 = "if self_vss cfg then s\<lparr>hashlist := setdefault_append (hashlist s) a ?h\<rparr> else s"
  note t2 = try_block_TryOk[OF f2]
  have skip: "ParseImageDir_entries env cfg fs' path' (f2 # rest') ns' ds' t =
      ParseImageDir_entries env cfg fs' path' rest' (Some n2) ds' t"
    if "self_vss cfg" "in_hashlist (hashlist t) a ?h" for fs' path' rest' ns' ds' t
    using that entries_Cons_regular[OF t2 n2, of env cfg fs' path' rest' ns' ds' t] fp
    by simp
  have keep: "ParseImageDir_entries env cfg fs' path' (f2 # rest') ns' ds' t =
      emit [Queue (transfer_proto env fs' path' n2 a)]
        (ParseImageDir_entries env cfg fs' path' rest' (Some n2) ds' t)"
    if "\<not> self_vss cfg" for fs' path' rest' ns' ds' t
    using that entries_Cons_regular[OF t2 n2, of env cfg fs' path' rest' ns' ds' t]
    by simp
  have first: "ParseImageDir_entries env cfg fs path (f1 # es) ns ds s =
      emit [Queue (transfer_proto env fs path n1 a)]
        (ParseImageDir_entries env cfg fs path es ns1 ds ?s1)" for es
    using new entries_Cons_regular[OF f1 n1, of env cfg fs path es ds s]
    by simp
  from entries_append[OF mid, of "f2 # rest"] obtain ns' where
    app: "ParseImageDir_entries env cfg fs path (mid @ f2 # rest) ns1 ds ?s1 =
         emit evs_mid (ParseImageDir_entries env cfg fs path (f2 # rest) ns' ds2 s2)"
    by blast
  have 1: "self_vss cfg \<longrightarrow>
       ParseImageDir_entries env cfg fs path (f1 # mid @ f2 # rest) ns ds s =
         emit (Queue (transfer_proto env fs path n1 a) # evs_mid)
           (ParseImageDir_entries env cfg fs path rest (Some n2) ds2 s2)"
  proof
    assume vss: "self_vss cfg"
    then have "in_hashlist (hashlist ?s1) a ?h"
      by (simp add: in_hashlist_setdefault_append)
    from entries_hashlist_mono[OF mid this] have "in_hashlist (hashlist s2) a ?h" .
    from skip[OF vss this] show "ParseImageDir_entries env cfg fs path (f1 # mid @ f2 # rest) ns ds s =
         emit (Queue (transfer_proto env fs path n1 a) # evs_mid)
           (ParseImageDir_entries env cfg fs path rest (Some n2) ds2 s2)"
      unfolding first app by (simp add: emit_emit)
  qed
  have 2: "\<not> self_vss cfg \<longrightarrow>
       ParseImageDir_entries env cfg fs path (f1 # mid @ f2 # rest) ns ds s =
         emit (Queue (transfer_proto env fs path n1 a) # evs_mid
               @ [Queue (transfer_proto env fs path n2 a)])
           (ParseImageDir_entries env cfg fs path rest (Some n2) ds2 s2)"
  proof
    assume "\<not> self_vss cfg"
    from keep[OF this]
    show "ParseImageDir_entries env cfg fs path (f1 # mid @ f2 # rest) ns ds s =
         emit (Queue (transfer_proto env fs path n1 a) # evs_mid
               @ [Queue (transfer_proto env fs path n2 a)])
           (ParseImageDir_entries env cfg fs path rest (Some n2) ds2 s2)"
      unfolding first app by (simp add: emit_emit)
  qed
  have 3: "self_vss cfg \<longrightarrow>
       (\<forall>fs' path' rest' ns' ds' t.
          in_hashlist (hashlist t) a ?h \<longrightarrow>
          ParseImageDir_entries env cfg fs' path' (f2 # rest') ns' ds' t =
          ParseImageDir_entries env cfg fs' path' rest' (Some n2) ds' t)"
    using skip by blast
  have 4: "\<forall>depth fs' i path' retry t r t' evs.
       in_hashlist (hashlist t) a ?h \<and>
       ParseImageDir depth env cfg fs' i path' retry t = Some (r, t', evs) \<longrightarrow>
       in_hashlist (hashlist t') a ?h"
    using ParseImageDir_hashlist_mono(1) by blast
  from 1 2 3 4 show ?thesis
    by (intro conjI)
qed

theorem dedup_keyed_by_inode_witness:
  "ParseImageDir_entries demo_env (demo_cfg\<lparr>self_vss := True\<rparr>) demo_fs ''/''
     [entry ''a'' 5 TSK_FS_META_TYPE_REG 7, entry ''d'' 3 TSK_FS_META_TYPE_DIR 7,
      entry ''b'' 5 TSK_FS_META_TYPE_REG 7] None []
     \<lparr>hashlist = Map.empty, world = 0\<rparr> =
     (Inr [(3, ''/d'')],
      \<lparr>hashlist = [5 \<mapsto> [''atime:1.0crtime:2.0mtime:7.5ctime:0.0'']], world = 0\<rparr>,
      [Queue (transfer_proto demo_env demo_fs ''/'' ''a'' 5)]) \<and>
   ParseImageDir_entries demo_env demo_cfg demo_fs ''/''
     [entry ''a'' 5 TSK_FS_META_TYPE_REG 7, entry ''d'' 3 TSK_FS_META_TYPE_DIR 7,
      entry ''b'' 5 TSK_FS_META_TYPE_REG 7] None []
     \<lparr>hashlist = Map.empty, world = 0\<rparr> =
     (Inr [(3, ''/d'')], \<lparr>hashlist = Map.empty, world = 0\<rparr>,
      [Queue (transfer_proto demo_env demo_fs ''/'' ''a'' 5),
       Queue (transfer_proto demo_env demo_fs ''/'' ''b'' 5)])"
proof -
  let ?cfg = "demo_cfg\<lparr>self_vss := True\<rparr>"
  let ?m = "entry_meta 5 TSK_FS_META_TYPE_REG 7"
  let ?s = "\<lparr>hashlist = Map.empty, world = 0::nat\<rparr>"
  let ?mid = "[entry ''d'' 3 TSK_FS_META_TYPE_DIR 7]"
  have fa: "try_block (entry ''a'' 5 TSK_FS_META_TYPE_REG 7) None =
      (TryOk ''a'' 5 TSK_FS_META_TYPE_REG ?m, Some ''a'')"
    by simp
  have fb: "try_block (entry ''b'' 5 TSK_FS_META_TYPE_REG 7) None =
      (TryOk ''b'' 5 TSK_FS_META_TYPE_REG ?m, Some ''b'')"
    by simp
  have na: "''a'' \<notin> set [''$OrphanFiles'', ''.'', ''..'']"
    by simp
  have nb: "''b'' \<notin> set [''$OrphanFiles'', ''.'', ''..'']"
    by simp
  have new: "\<not> in_hashlist (hashlist ?s) 5 (CalculateNTFSTimeHash demo_env ?m)"
    by (simp add: in_hashlist_def)
  have mid_vss: "ParseImageDir_entries demo_env ?cfg demo_fs ''/'' ?mid (Some ''a'') []
      (if self_vss ?cfg
       then ?s\<lparr>hashlist := setdefault_append (hashlist ?s) 5 (CalculateNTFSTimeHash demo_env ?m)\<rparr>
       else ?s) =
      (Inr [(3, ''/d'')],
       \<lparr>hashlist = [5 \<mapsto> [''atime:1.0crtime:2.0mtime:7.5ctime:0.0'']], world = 0\<rparr>, [])"
    by (simp add: setdefault_append_def demo_fingerprint os_path_join_def)
  have mid_plain: "ParseImageDir_entries demo_env demo_cfg demo_fs ''/'' ?mid (Some ''a'') []
      (if self_vss demo_cfg
       then ?s\<lparr>hashlist := setdefault_append (hashlist ?s) 5 (CalculateNTFSTimeHash demo_env ?m)\<rparr>
       else ?s) = (Inr [(3, ''/d'')], ?s, [])"
    by (simp add: os_path_join_def)
  from dedup_keyed_by_inode[OF fa fb na nb refl new mid_vss, of "[]", THEN conjunct1]
  have 1: "ParseImageDir_entries demo_env ?cfg demo_fs ''/''
     [entry ''a'' 5 TSK_FS_META_TYPE_REG 7, entry ''d'' 3 TSK_FS_META_TYPE_DIR 7,
      entry ''b'' 5 TSK_FS_META_TYPE_REG 7] None [] ?s =
     (Inr [(3, ''/d'')],
      \<lparr>hashlist = [5 \<mapsto> [''atime:1.0crtime:2.0mtime:7.5ctime:0.0'']], world = 0\<rparr>,
      [Queue (transfer_proto demo_env demo_fs ''/'' ''a'' 5)])"
    by simp
  from dedup_keyed_by_inode[OF fa fb na nb refl new mid_plain, of "[]", THEN conjunct2, THEN conjunct1]
  have 2: "ParseImageDir_entries demo_env demo_cfg demo_fs ''/''
     [entry ''a'' 5 TSK_FS_META_TYPE_REG 7, entry ''d'' 3 TSK_FS_META_TYPE_DIR 7,
      entry ''b'' 5 TSK_FS_META_TYPE_REG 7] None [] ?s =
     (Inr [(3, ''/d'')], ?s,
      [Queue (transfer_proto demo_env demo_fs ''/'' ''a'' 5),
       Queue (transfer_proto demo_env demo_fs ''/'' ''b'' 5)])"
    by simp
  from 1 2 show ?thesis
    by (rule conjI)
qed

section \<open>The table and the main volume\<close>

lemma Collect_resets_hashlist:
  "self_vss cfg \<Longrightarrow>
   SimpleImageCollector_Collect g depth env cfg s =
   SimpleImageCollector_Collect g depth env cfg (s\<lparr>hashlist := Map.empty\<rparr>)"
  by (simp add: SimpleImageCollector_Collect_def)

lemma demo_Collect_no_store:
  "SimpleImageCollector_Collect module_globals 3 demo_env
     (demo_cfg\<lparr>self_vss := True, self_vss_stores := Some [7]\<rparr>) demo_state =
     Some (Inr (),
       \<lparr>hashlist = [5 \<mapsto> [CalculateNTFSTimeHash demo_env (entry_meta 5 TSK_FS_META_TYPE_REG 7)],
                    6 \<mapsto> [CalculateNTFSTimeHash demo_env (entry_meta 6 TSK_FS_META_TYPE_REG 9)]],
        world = 2\<rparr>,
       [Log DEBUG ''Collecting from an image file [%s]'' [''img''],
        FsOpen ''img'' 32256 no_store,
        Queue (transfer_proto demo_env demo_fs ''/'' ''a'' 5),
        Queue (transfer_proto demo_env demo_fs ''/d'' ''c'' 6),
        Log INFO ''Collecting from VSS.'' [],
        Log DEBUG ''Searching for VSS'' [],
        VssStoreCount ''img'' 32256,
        Log DEBUG ''Simple Image Collector - Done.'' []])"
  by (simp add: SimpleImageCollector_Collect_def demo_state_def os_path_sep_def demo_walk_vss
      GetVssStores_def Collect_stores_cases Let_def py_or_def SECTOR_SIZE_def)

text \<open>
  Claim C4, amended. Whether the table is used depends on \<open>parse_vss\<close> alone, not on the
  volume walked. With \<open>parse_vss\<close> set, \<open>Collect\<close> starts with an empty table whatever an
  earlier run left in it, and the walk of the main volume (the handle without a store
  number) uses the table as the walk of a store does: a regular file whose fingerprint is
  in the table under its inode is skipped, any other has its fingerprint recorded and its
  descriptor, of type \<open>TSK\<close>, put on the queue. With \<open>parse_vss\<close> not set, every regular
  file found is put on the queue and no walk changes the table.
\<close>

theorem dedup_table_follows_parse_vss:
  assumes f: "try_block f ns = (TryOk n a TSK_FS_META_TYPE_REG m, ns')"
    and n: "n \<notin> set [''$OrphanFiles'', ''.'', ''..'']"
    and main: "fs_store_nr fs = no_store"
  shows
   "(self_vss cfg \<longrightarrow>
       SimpleImageCollector_Collect g depth env cfg s =
         SimpleImageCollector_Collect g depth env cfg (s\<lparr>hashlist := Map.empty\<rparr>) \<and>
       (in_hashlist (hashlist t) a (CalculateNTFSTimeHash env m) \<longrightarrow>
          ParseImageDir_entries env cfg fs path (f # rest) ns ds t =
          ParseImageDir_entries env cfg fs path rest ns' ds t) \<and>
       (\<not> in_hashlist (hashlist t) a (CalculateNTFSTimeHash env m) \<longrightarrow>
          ParseImageDir_entries env cfg fs path (f # rest) ns ds t =
          emit [Queue (transfer_proto env fs path n a)]
            (ParseImageDir_entries env cfg fs path rest ns' ds
               (t\<lparr>hashlist := setdefault_append (hashlist t) a (CalculateNTFSTimeHash env m)\<rparr>)) \<and>
          in_hashlist (setdefault_append (hashlist t) a (CalculateNTFSTimeHash env m)) a
            (CalculateNTFSTimeHash env m)) \<and>
       pathspec_type (transfer_proto env fs path n a) = ''TSK'') \<and>
    (\<not> self_vss cfg \<longrightarrow>
       ParseImageDir_entries env cfg fs path (f # rest) ns ds t =
         emit [Queue (transfer_proto env fs path n a)]
           (ParseImageDir_entries env cfg fs path rest ns' ds t) \<and>
       (\<forall>depth' fs' i p retry u r u' evs.
          ParseImageDir depth' env cfg fs' i p retry u = Some (r, u', evs) \<longrightarrow>
          hashlist u' = hashlist u))"
proof -
  note eq = entries_Cons_regular[OF f n, of env cfg fs path rest ds t]
  have tsk: "pathspec_type (transfer_proto env fs path n a) = ''TSK''"
    using main by (simp add: transfer_proto_def no_store_def)
  have 1: "self_vss cfg \<longrightarrow>
       SimpleImageCollector_Collect g depth env cfg s =
         SimpleImageCollector_Collect g depth env cfg (s\<lparr>hashlist := Map.empty\<rparr>) \<and>
       (in_hashlist (hashlist t) a (CalculateNTFSTimeHash env m) \<longrightarrow>
          ParseImageDir_entries env cfg fs path (f # rest) ns ds t =
          ParseImageDir_entries env cfg fs path rest ns' ds t) \<and>
       (\<not> in_hashlist (hashlist t) a (CalculateNTFSTimeHash env m) \<longrightarrow>
          ParseImageDir_entries env cfg fs path (f # rest) ns ds t =
          emit [Queue (transfer_proto env fs path n a)]
            (ParseImageDir_entries env cfg fs path rest ns' ds
               (t\<lparr>hashlist := setdefault_append (hashlist t) a (CalculateNTFSTimeHash env m)\<rparr>)) \<and>
          in_hashlist (setdefault_append (hashlist t) a (CalculateNTFSTimeHash env m)) a
            (CalculateNTFSTimeHash env m)) \<and>
       pathspec_type (transfer_proto env fs path n a) = ''TSK''"
  proof
    assume vss: "self_vss cfg"
    from vss eq tsk Collect_resets_hashlist[OF vss, of g depth env s]
    show "SimpleImageCollector_Collect g depth env cfg s =
         SimpleImageCollector_Collect g depth env cfg (s\<lparr>hashlist := Map.empty\<rparr>) \<and>
       (in_hashlist (hashlist t) a (CalculateNTFSTimeHash env m) \<longrightarrow>
          ParseImageDir_entries env cfg fs path (f # rest) ns ds t =
          ParseImageDir_entries env cfg fs path rest ns' ds t) \<and>
       (\<not> in_hashlist (hashlist t) a (CalculateNTFSTimeHash env m) \<longrightarrow>
          ParseImageDir_entries env cfg fs path (f # rest) ns ds t =
          emit [Queue (transfer_proto env fs path n a)]
            (ParseImageDir_entries env cfg fs path rest ns' ds
               (t\<lparr>hashlist := setdefault_append (hashlist t) a (CalculateNTFSTimeHash env m)\<rparr>)) \<and>
          in_hashlist (setdefault_append (hashlist t) a (CalculateNTFSTimeHash env m)) a
            (CalculateNTFSTimeHash env m)) \<and>
       pathspec_type (transfer_proto env fs path n a) = ''TSK''"
      by (simp add: in_hashlist_setdefault_append)
  qed
  have 2: "\<not> self_vss cfg \<longrightarrow>
       ParseImageDir_entries env cfg fs path (f # rest) ns ds t =
         emit [Queue (transfer_proto env fs path n a)]
           (ParseImageDir_entries env cfg fs path rest ns' ds t) \<and>
       (\<forall>depth' fs' i p retry u r u' evs.
          ParseImageDir depth' env cfg fs' i p retry u = Some (r, u', evs) \<longrightarrow>
          hashlist u' = hashlist u)"
    using eq ParseImageDir_plain_hashlist(1)[of _ env cfg] by simp
  from 1 2 show ?thesis
    by (rule conjI)
qed

text \<open>
  With \<open>parse_vss\<close> set and no store selected (store 7 of a volume with three stores), the
  only walk of the run is that of the main volume. It leaves out \<open>/b\<close>, a regular file of
  the volume, and records the fingerprints of the files it puts on the queue.
\<close>

theorem main_volume_walk_uses_table:
  "\<exists>s' evs.
     SimpleImageCollector_Collect module_globals 3 demo_env
       (demo_cfg\<lparr>self_vss := True, self_vss_stores := Some [7]\<rparr>) demo_state
       = Some (Inr (), s', evs) \<and>
     fst (open_dir demo_env demo_fs 2 0) =
       Some [entry ''a'' 5 TSK_FS_META_TYPE_REG 7, entry ''d'' 3 TSK_FS_META_TYPE_DIR 7,
             entry ''b'' 5 TSK_FS_META_TYPE_REG 7] \<and>
     opened_stores evs = [] \<and>
     queued evs = [transfer_proto demo_env demo_fs ''/'' ''a'' 5,
                   transfer_proto demo_env demo_fs ''/d'' ''c'' 6] \<and>
     transfer_proto demo_env demo_fs ''/'' ''b'' 5 \<notin> set (queued evs) \<and>
     hashlist s' 5 = Some [CalculateNTFSTimeHash demo_env (entry_meta 5 TSK_FS_META_TYPE_REG 7)] \<and>
     hashlist s' 6 = Some [CalculateNTFSTimeHash demo_env (entry_meta 6 TSK_FS_META_TYPE_REG 9)]"
  unfolding demo_Collect_no_store
  by (simp add: transfer_proto_def os_path_join_def no_store_def)

theorem dedup_table_follows_parse_vss_witness:
  "ParseImageDir_entries demo_env (demo_cfg\<lparr>self_vss := True\<rparr>) demo_fs ''/''
     [entry ''a'' 5 TSK_FS_META_TYPE_REG 7] None [] \<lparr>hashlist = Map.empty, world = 0\<rparr> =
     (Inr [],
      \<lparr>hashlist = [5 \<mapsto> [''atime:1.0crtime:2.0mtime:7.5ctime:0.0'']], world = 0\<rparr>,
      [Queue (transfer_proto demo_env demo_fs ''/'' ''a'' 5)]) \<and>
   pathspec_type (transfer_proto demo_env demo_fs ''/'' ''a'' 5) = ''TSK'' \<and>
   ParseImageDir_entries demo_env (demo_cfg\<lparr>self_vss := True\<rparr>) demo_fs ''/''
     [entry ''b'' 5 TSK_FS_META_TYPE_REG 7] None []
     \<lparr>hashlist = [5 \<mapsto> [''atime:1.0crtime:2.0mtime:7.5ctime:0.0'']], world = 0\<rparr> =
     (Inr [],
      \<lparr>hashlist = [5 \<mapsto> [''atime:1.0crtime:2.0mtime:7.5ctime:0.0'']], world = 0\<rparr>, []) \<and>
   ParseImageDir_entries demo_env demo_cfg demo_fs ''/''
     [entry ''b'' 5 TSK_FS_META_TYPE_REG 7] None []
     \<lparr>hashlist = [5 \<mapsto> [''atime:1.0crtime:2.0mtime:7.5ctime:0.0'']], world = 0\<rparr> =
     (Inr [],
      \<lparr>hashlist = [5 \<mapsto> [''atime:1.0crtime:2.0mtime:7.5ctime:0.0'']], world = 0\<rparr>,
      [Queue (transfer_proto demo_env demo_fs ''/'' ''b'' 5)]) \<and>
   (\<exists>s' evs. ParseImageDir 3 demo_env demo_cfg demo_fs 2 ''/'' False
        \<lparr>hashlist = [5 \<mapsto> [''x'']], world = 0\<rparr> = Some (Inr (), s', evs) \<and>
      length (queued evs) = 3 \<and> hashlist s' = [5 \<mapsto> [''x'']])"
proof -
  let ?cfg = "demo_cfg\<lparr>self_vss := True\<rparr>"
  let ?m = "entry_meta 5 TSK_FS_META_TYPE_REG 7"
  let ?s0 = "\<lparr>hashlist = Map.empty, world = 0::nat\<rparr>"
  let ?s1 = "\<lparr>hashlist = [5 \<mapsto> [''atime:1.0crtime:2.0mtime:7.5ctime:0.0'']], world = 0::nat\<rparr>"
  have fa: "try_block (entry ''a'' 5 TSK_FS_META_TYPE_REG 7) None =
      (TryOk ''a'' 5 TSK_FS_META_TYPE_REG ?m, Some ''a'')"
    by simp
  have fb: "try_block (entry ''b'' 5 TSK_FS_META_TYPE_REG 7) None =
      (TryOk ''b'' 5 TSK_FS_META_TYPE_REG ?m, Some ''b'')"
    by simp
  have na: "''a'' \<notin> set [''$OrphanFiles'', ''.'', ''..'']"
    by simp
  have nb: "''b'' \<notin> set [''$OrphanFiles'', ''.'', ''..'']"
    by simp
  have main: "fs_store_nr demo_fs = no_store"
    by (simp add: demo_fs_def no_store_def)
  have vss: "self_vss ?cfg"
    by simp
  have plain: "\<not> self_vss demo_cfg"
    by simp
  have new: "\<not> in_hashlist (hashlist ?s0) 5 (CalculateNTFSTimeHash demo_env ?m)"
    by (simp add: in_hashlist_def)
  have old: "in_hashlist (hashlist ?s1) 5 (CalculateNTFSTimeHash demo_env ?m)"
    by (simp add: in_hashlist_def demo_fingerprint)
  note a = dedup_table_follows_parse_vss[OF fa na main, where cfg = ?cfg and env = demo_env
      and t = ?s0 and path = "''/''" and rest = "[]" and ds = "[]",
      THEN conjunct1, rule_format, OF vss]
  note b = dedup_table_follows_parse_vss[OF fb nb main, where cfg = ?cfg and env = demo_env
      and t = ?s1 and path = "''/''" and rest = "[]" and ds = "[]",
      THEN conjunct1, rule_format, OF vss]
  note c = dedup_table_follows_parse_vss[OF fb nb main, where cfg = demo_cfg and env = demo_env
      and t = ?s1 and path = "''/''" and rest = "[]" and ds = "[]",
      THEN conjunct2, rule_format, OF plain]
  from a[THEN conjunct2, THEN conjunct2, THEN conjunct1, rule_format, OF new, THEN conjunct1]
  have 1: "ParseImageDir_entries demo_env ?cfg demo_fs ''/''
     [entry ''a'' 5 TSK_FS_META_TYPE_REG 7] None [] ?s0 =
     (Inr [], ?s1, [Queue (transfer_proto demo_env demo_fs ''/'' ''a'' 5)])"
    by (simp add: setdefault_append_def demo_fingerprint)
  from a have 2: "pathspec_type (transfer_proto demo_env demo_fs ''/'' ''a'' 5) = ''TSK''"
    by simp
  from b[THEN conjunct2, THEN conjunct1, rule_format, OF old]
  have 3: "ParseImageDir_entries demo_env ?cfg demo_fs ''/''
     [entry ''b'' 5 TSK_FS_META_TYPE_REG 7] None [] ?s1 = (Inr [], ?s1, [])"
    by simp
  from c[THEN conjunct1]
  have 4: "ParseImageDir_entries demo_env demo_cfg demo_fs ''/''
     [entry ''b'' 5 TSK_FS_META_TYPE_REG 7] None [] ?s1 =
     (Inr [], ?s1, [Queue (transfer_proto demo_env demo_fs ''/'' ''b'' 5)])"
    by simp
  have w: "ParseImageDir 3 demo_env demo_cfg demo_fs 2 ''/'' False
        \<lparr>hashlist = [5 \<mapsto> [''x'']], world = 0\<rparr> =
     Some (Inr (), \<lparr>hashlist = [5 \<mapsto> [''x'']], world = Suc (Suc 0)\<rparr>,
       [Queue (transfer_proto demo_env demo_fs ''/'' ''a'' 5),
        Queue (transfer_proto demo_env demo_fs ''/'' ''b'' 5),
        Queue (transfer_proto demo_env demo_fs ''/d'' ''c'' 6)])"
    by (rule demo_walk_plain[OF plain])
  from c[THEN conjunct2, rule_format, OF w]
  have 5: "\<exists>s' evs. ParseImageDir 3 demo_env demo_cfg demo_fs 2 ''/'' False
        \<lparr>hashlist = [5 \<mapsto> [''x'']], world = 0\<rparr> = Some (Inr (), s', evs) \<and>
      length (queued evs) = 3 \<and> hashlist s' = [5 \<mapsto> [''x'']]"
    unfolding w by simp
  from 1 2 3 4 5 show ?thesis
    by (intro conjI)
qed

section \<open>A directory that fails to open\<close>

lemma ParseImageDir_retry_irrelevant:
  "open_dir env fs i (world s) = (Some directory, w) \<Longrightarrow>
   ParseImageDir (Suc depth) env cfg fs i path True s =
   ParseImageDir (Suc depth) env cfg fs i path False s"
  by simp

lemma queued_Log [simp]: "queued (Log l m as # es) = queued es"
  by simp

text \<open>
  Claim C7. When a directory fails to open, \<open>ParseImageDir\<close> logs the error and walks the
  same directory once more, with \<open>retry\<close> set. When that second attempt fails too, it logs
  the error and returns with nothing put on the queue and no third attempt, and the loop
  over the directories of the parent goes on with the next one. When the second attempt
  succeeds, the walk is the walk of a directory that opens at once, after the two log
  records: it returns when that one does, with the same result and the same descriptors.
\<close>

theorem open_failure_retried_once:
  assumes fail: "open_dir env fs i (world s) = (None, w1)"
  shows
   "ParseImageDir (Suc depth) env cfg fs i path False s =
      emit_opt
        [Log ERROR ''IOError while trying to open a directory: %s [%d]'' [path, str_int i],
         Log INFO ''Reopening directory due to an IOError: %s'' [path]]
        (ParseImageDir depth env cfg fs i path True (s\<lparr>world := w1\<rparr>)) \<and>
    (open_dir env fs i w1 = (None, w2) \<longrightarrow>
       ParseImageDir (Suc (Suc depth)) env cfg fs i path False s =
         Some (Inr (), s\<lparr>world := w2\<rparr>,
           [Log ERROR ''IOError while trying to open a directory: %s [%d]'' [path, str_int i],
            Log INFO ''Reopening directory due to an IOError: %s'' [path],
            Log ERROR ''IOError while trying to open a directory: %s [%d]'' [path, str_int i]]) \<and>
       ParseImageDir_subdirs (Suc (Suc depth)) env cfg fs ((i, path) # rest) s =
         emit_opt
           [Log ERROR ''IOError while trying to open a directory: %s [%d]'' [path, str_int i],
            Log INFO ''Reopening directory due to an IOError: %s'' [path],
            Log ERROR ''IOError while trying to open a directory: %s [%d]'' [path, str_int i]]
           (ParseImageDir_subdirs (Suc (Suc depth)) env cfg fs rest (s\<lparr>world := w2\<rparr>))) \<and>
    (open_dir env fs i w1 = (Some directory, w2) \<longrightarrow>
       ParseImageDir (Suc (Suc depth)) env cfg fs i path False s =
         emit_opt
           [Log ERROR ''IOError while trying to open a directory: %s [%d]'' [path, str_int i],
            Log INFO ''Reopening directory due to an IOError: %s'' [path]]
           (ParseImageDir (Suc depth) env cfg fs i path False (s\<lparr>world := w1\<rparr>)) \<and>
       (\<forall>r s' evs.
          ParseImageDir (Suc depth) env cfg fs i path False (s\<lparr>world := w1\<rparr>) = Some (r, s', evs) \<longrightarrow>
          (\<exists>evs'. ParseImageDir (Suc (Suc depth)) env cfg fs i path False s = Some (r, s', evs') \<and>
                  queued evs' = queued evs)))"
proof -
  let ?l1 = "Log ERROR ''IOError while trying to open a directory: %s [%d]'' [path, str_int i]"
  let ?l2 = "Log INFO ''Reopening directory due to an IOError: %s'' [path]"
  have 1: "ParseImageDir (Suc d) env cfg fs i path False s =
      emit_opt [?l1, ?l2] (ParseImageDir d env cfg fs i path True (s\<lparr>world := w1\<rparr>))" for d
    using fail by simp
  have 2: "open_dir env fs i w1 = (None, w2) \<longrightarrow>
       ParseImageDir (Suc (Suc depth)) env cfg fs i path False s =
         Some (Inr (), s\<lparr>world := w2\<rparr>, [?l1, ?l2, ?l1]) \<and>
       ParseImageDir_subdirs (Suc (Suc depth)) env cfg fs ((i, path) # rest) s =
         emit_opt [?l1, ?l2, ?l1]
           (ParseImageDir_subdirs (Suc (Suc depth)) env cfg fs rest (s\<lparr>world := w2\<rparr>))"
  proof
    assume f2: "open_dir env fs i w1 = (None, w2)"
    then have a: "ParseImageDir (Suc depth) env cfg fs i path True (s\<lparr>world := w1\<rparr>) =
        Some (Inr (), s\<lparr>world := w2\<rparr>, [?l1])"
      by simp
    have b: "ParseImageDir (Suc (Suc depth)) env cfg fs i path False s =
         Some (Inr (), s\<lparr>world := w2\<rparr>, [?l1, ?l2, ?l1])"
      unfolding 1 a by simp
    have c: "ParseImageDir_subdirs (Suc (Suc depth)) env cfg fs ((i, path) # rest) s =
         emit_opt [?l1, ?l2, ?l1]
           (ParseImageDir_subdirs (Suc (Suc depth)) env cfg fs rest (s\<lparr>world := w2\<rparr>))"
      unfolding ParseImageDir_subdirs.simps(2) b by simp
    from b c show "ParseImageDir (Suc (Suc depth)) env cfg fs i path False s =
         Some (Inr (), s\<lparr>world := w2\<rparr>, [?l1, ?l2, ?l1]) \<and>
       ParseImageDir_subdirs (Suc (Suc depth)) env cfg fs ((i, path) # rest) s =
         emit_opt [?l1, ?l2, ?l1]
           (ParseImageDir_subdirs (Suc (Suc depth)) env cfg fs rest (s\<lparr>world := w2\<rparr>))"
      by (rule conjI)
  qed
  have 3: "open_dir env fs i w1 = (Some directory, w2) \<longrightarrow>
       ParseImageDir (Suc (Suc depth)) env cfg fs i path False s =
         emit_opt [?l1, ?l2]
           (ParseImageDir (Suc depth) env cfg fs i path False (s\<lparr>world := w1\<rparr>)) \<and>
       (\<forall>r s' evs.
          ParseImageDir (Suc depth) env cfg fs i path False (s\<lparr>world := w1\<rparr>) = Some (r, s', evs) \<longrightarrow>
          (\<exists>evs'. ParseImageDir (Suc (Suc depth)) env cfg fs i path False s = Some (r, s', evs') \<and>
                  queued evs' = queued evs))"
  proof
    assume ok: "open_dir env fs i w1 = (Some directory, w2)"
    then have "open_dir env fs i (world (s\<lparr>world := w1\<rparr>)) = (Some directory, w2)"
      by simp
    note irr = ParseImageDir_retry_irrelevant[OF this, of depth cfg path]
    have a: "ParseImageDir (Suc (Suc depth)) env cfg fs i path False s =
         emit_opt [?l1, ?l2]
           (ParseImageDir (Suc depth) env cfg fs i path False (s\<lparr>world := w1\<rparr>))"
      unfolding 1 irr ..
    have b: "\<forall>r s' evs.
          ParseImageDir (Suc depth) env cfg fs i path False (s\<lparr>world := w1\<rparr>) = Some (r, s', evs) \<longrightarrow>
          (\<exists>evs'. ParseImageDir (Suc (Suc depth)) env cfg fs i path False s = Some (r, s', evs') \<and>
                  queued evs' = queued evs)"
      unfolding a by simp
    from a b show "ParseImageDir (Suc (Suc depth)) env cfg fs i path False s =
         emit_opt [?l1, ?l2]
           (ParseImageDir (Suc depth) env cfg fs i path False (s\<lparr>world := w1\<rparr>)) \<and>
       (\<forall>r s' evs.
          ParseImageDir (Suc depth) env cfg fs i path False (s\<lparr>world := w1\<rparr>) = Some (r, s', evs) \<longrightarrow>
          (\<exists>evs'. ParseImageDir (Suc (Suc depth)) env cfg fs i path False s = Some (r, s', evs') \<and>
                  queued evs' = queued evs))"
      by (rule conjI)
  qed
  from 1[of depth] 2 3 show ?thesis
    by (intro conjI)
qed

lemma flaky_env_simps [simp]:
  "open_dir (flaky_env k) fs i w =
     (if i = 2 then
        Some [entry ''d'' 3 TSK_FS_META_TYPE_DIR 7, entry ''e'' 4 TSK_FS_META_TYPE_DIR 7]
      else if i = 3 then
        (if w < k then None else Some [entry ''c'' 6 TSK_FS_META_TYPE_REG 9])
      else if i = 4 then Some [entry ''g'' 8 TSK_FS_META_TYPE_REG 9]
      else None, Suc w)"
  "md5_hexdigest (flaky_env k) = (\<lambda>b. b)"
  "GetUnicodeString (flaky_env k) = (\<lambda>b. b)"
  by (simp_all add: flaky_env_def)

theorem open_failure_retried_once_witness:
  "ParseImageDir 2 (flaky_env 2) demo_cfg demo_fs 3 ''/d'' False \<lparr>hashlist = Map.empty, world = 1\<rparr> =
     Some (Inr (), \<lparr>hashlist = Map.empty, world = 3\<rparr>,
       [Log ERROR ''IOError while trying to open a directory: %s [%d]'' [''/d'', ''3''],
        Log INFO ''Reopening directory due to an IOError: %s'' [''/d''],
        Queue (transfer_proto (flaky_env 2) demo_fs ''/d'' ''c'' 6)]) \<and>
   ParseImageDir_subdirs 2 (flaky_env 3) demo_cfg demo_fs [(3, ''/d''), (4, ''/e'')]
       \<lparr>hashlist = Map.empty, world = 1\<rparr> =
     Some (Inr (), \<lparr>hashlist = Map.empty, world = 4\<rparr>,
       [Log ERROR ''IOError while trying to open a directory: %s [%d]'' [''/d'', ''3''],
        Log INFO ''Reopening directory due to an IOError: %s'' [''/d''],
        Log ERROR ''IOError while trying to open a directory: %s [%d]'' [''/d'', ''3''],
        Queue (transfer_proto (flaky_env 3) demo_fs ''/e'' ''g'' 8)])"
proof -
  let ?s = "\<lparr>hashlist = Map.empty, world = 1::nat\<rparr>"
  have two: "(2::nat) = Suc (Suc 0)"
    by simp
  have s3: "str_int 3 = ''3''"
    by (simp add: str_int_def dec_nat.simps)
  have fail2: "open_dir (flaky_env 2) demo_fs 3 (world ?s) = (None, 2)"
    by simp
  have ok2: "open_dir (flaky_env 2) demo_fs 3 2 = (Some [entry ''c'' 6 TSK_FS_META_TYPE_REG 9], 3)"
    by simp
  have fail3: "open_dir (flaky_env 3) demo_fs 3 (world ?s) = (None, 2)"
    by simp
  have fail3': "open_dir (flaky_env 3) demo_fs 3 2 = (None, 3)"
    by simp
  from open_failure_retried_once[OF fail2, where depth = 0 and cfg = demo_cfg and path = "''/d''",
      THEN conjunct2, THEN conjunct2, rule_format, OF ok2, THEN conjunct1]
  have 1: "ParseImageDir 2 (flaky_env 2) demo_cfg demo_fs 3 ''/d'' False ?s =
     Some (Inr (), \<lparr>hashlist = Map.empty, world = 3\<rparr>,
       [Log ERROR ''IOError while trying to open a directory: %s [%d]'' [''/d'', ''3''],
        Log INFO ''Reopening directory due to an IOError: %s'' [''/d''],
        Queue (transfer_proto (flaky_env 2) demo_fs ''/d'' ''c'' 6)])"
    unfolding two by (simp add: s3 os_path_join_def)
  from open_failure_retried_once[OF fail3, where depth = 0 and cfg = demo_cfg and path = "''/d''"
        and rest = "[(4, ''/e'')]",
      THEN conjunct2, THEN conjunct1, rule_format, OF fail3', THEN conjunct2]
  have 2: "ParseImageDir_subdirs 2 (flaky_env 3) demo_cfg demo_fs [(3, ''/d''), (4, ''/e'')] ?s =
     Some (Inr (), \<lparr>hashlist = Map.empty, world = 4\<rparr>,
       [Log ERROR ''IOError while trying to open a directory: %s [%d]'' [''/d'', ''3''],
        Log INFO ''Reopening directory due to an IOError: %s'' [''/d''],
        Log ERROR ''IOError while trying to open a directory: %s [%d]'' [''/d'', ''3''],
        Queue (transfer_proto (flaky_env 3) demo_fs ''/e'' ''g'' 8)])"
    unfolding two by (simp add: s3 os_path_join_def)
  from 1 2 show ?thesis
    by (rule conjI)
qed

end
